theory Spec2Isabelle
  imports Complex_Main
begin

section \<open>JavaScript numbers\<close>

text \<open>
  The dashboard computes with JavaScript numbers. A number is modelled as an exact real,
  or one of the three special values that arithmetic on finite numbers can produce:
  \<open>Infinity\<close>, \<open>-Infinity\<close> and \<open>NaN\<close>. Rounding of finite results is not modelled. Every
  constant the modelled code compares with or scales by (0.75, 0.5, 0.25, 12, 48, 100, 200)
  is a finite number, and a zero divisor is the positive zero that \<open>x - x\<close> yields.
\<close>

datatype jsnum = Fin real | PInf | NInf | NaN

text \<open>\<open>a >= b\<close>: false as soon as one side is \<open>NaN\<close>.\<close>

fun js_ge :: "jsnum \<Rightarrow> jsnum \<Rightarrow> bool" where
  "js_ge NaN _ = False"
| "js_ge _ NaN = False"
| "js_ge (Fin a) (Fin b) = (b \<le> a)"
| "js_ge PInf _ = True"
| "js_ge _ NInf = True"
| "js_ge (Fin _) PInf = False"
| "js_ge NInf (Fin _) = False"
| "js_ge NInf PInf = False"

text \<open>\<open>a > b\<close>: false as soon as one side is \<open>NaN\<close>.\<close>

fun js_gt :: "jsnum \<Rightarrow> jsnum \<Rightarrow> bool" where
  "js_gt NaN _ = False"
| "js_gt _ NaN = False"
| "js_gt (Fin a) (Fin b) = (b < a)"
| "js_gt PInf PInf = False"
| "js_gt PInf _ = True"
| "js_gt NInf _ = False"
| "js_gt (Fin _) NInf = True"
| "js_gt (Fin _) PInf = False"

text \<open>\<open>a === b\<close> on numbers: \<open>NaN\<close> equals nothing, itself included.\<close>

fun js_eq :: "jsnum \<Rightarrow> jsnum \<Rightarrow> bool" where
  "js_eq NaN _ = False"
| "js_eq _ NaN = False"
| "js_eq a b = (a = b)"

fun js_neg :: "jsnum \<Rightarrow> jsnum" where
  "js_neg (Fin a) = Fin (- a)"
| "js_neg PInf = NInf"
| "js_neg NInf = PInf"
| "js_neg NaN = NaN"

fun js_add :: "jsnum \<Rightarrow> jsnum \<Rightarrow> jsnum" where
  "js_add NaN _ = NaN"
| "js_add _ NaN = NaN"
| "js_add (Fin a) (Fin b) = Fin (a + b)"
| "js_add PInf NInf = NaN"
| "js_add NInf PInf = NaN"
| "js_add PInf _ = PInf"
| "js_add NInf _ = NInf"
| "js_add (Fin _) b = b"

definition js_sub :: "jsnum \<Rightarrow> jsnum \<Rightarrow> jsnum" where
  "js_sub a b = js_add a (js_neg b)"

text \<open>The sign of a product with an infinite factor; zero times infinity is \<open>NaN\<close>.\<close>

definition inf_signed :: "real \<Rightarrow> jsnum" where
  "inf_signed s = (if s = 0 then NaN else if 0 < s then PInf else NInf)"

fun js_mul :: "jsnum \<Rightarrow> jsnum \<Rightarrow> jsnum" where
  "js_mul NaN _ = NaN"
| "js_mul _ NaN = NaN"
| "js_mul (Fin a) (Fin b) = Fin (a * b)"
| "js_mul PInf (Fin b) = inf_signed b"
| "js_mul NInf (Fin b) = inf_signed (- b)"
| "js_mul (Fin a) PInf = inf_signed a"
| "js_mul (Fin a) NInf = inf_signed (- a)"
| "js_mul PInf PInf = PInf"
| "js_mul NInf NInf = PInf"
| "js_mul PInf NInf = NInf"
| "js_mul NInf PInf = NInf"

text \<open>
  Division. A finite number over zero is \<open>NaN\<close> for 0/0 and an infinity of the sign of the
  numerator otherwise; a finite number over an infinity is zero; an infinity over an
  infinity is \<open>NaN\<close>.
\<close>

fun js_div :: "jsnum \<Rightarrow> jsnum \<Rightarrow> jsnum" where
  "js_div NaN _ = NaN"
| "js_div _ NaN = NaN"
| "js_div (Fin a) (Fin b) = (if b = 0 then inf_signed a else Fin (a / b))"
| "js_div (Fin _) PInf = Fin 0"
| "js_div (Fin _) NInf = Fin 0"
| "js_div PInf (Fin b) = (if 0 \<le> b then PInf else NInf)"
| "js_div NInf (Fin b) = (if 0 \<le> b then NInf else PInf)"
| "js_div _ _ = NaN"

text \<open>\<open>Math.floor\<close>.\<close>

fun Math_floor :: "jsnum \<Rightarrow> jsnum" where
  "Math_floor (Fin a) = Fin (of_int \<lfloor>a\<rfloor>)"
| "Math_floor x = x"

text \<open>
  \<open>Math.max(...xs)\<close> and \<open>Math.min(...xs)\<close> on a list of finite numbers: with no argument
  they are \<open>-Infinity\<close> and \<open>Infinity\<close>.
\<close>

fun Math_max :: "real list \<Rightarrow> jsnum" where
  "Math_max [] = NInf"
| "Math_max (x # xs) = Fin (fold max xs x)"

fun Math_min :: "real list \<Rightarrow> jsnum" where
  "Math_min [] = PInf"
| "Math_min (x # xs) = Fin (fold min xs x)"

section \<open>Sentiment interpretation (the Sentiment module)\<close>

text \<open>
  \<open>interpretSentiment(compound)\<close> picks an interpretation and a badge colour by a chain of
  \<open>>=\<close> tests and returns the badge markup
  \<^verbatim>\<open><span class="badge bg-${color} fs-6">${interpretation}</span>\<close>.
  \<open>sentimentBand\<close> is the chain; \<open>badge\<close> is the template of the return statement.
\<close>

definition sentimentBand :: "jsnum \<Rightarrow> string \<times> string" where
  "sentimentBand compound =
     (if js_ge compound (Fin 0.75) then (''Very Positive'', ''success'')
      else if js_ge compound (Fin 0.5) then (''Positive'', ''success'')
      else if js_ge compound (Fin 0.25) then (''Moderately Positive'', ''info'')
      else if js_ge compound (Fin (- 0.25)) then (''Neutral'', ''secondary'')
      else if js_ge compound (Fin (- 0.5)) then (''Moderately Negative'', ''warning'')
      else if js_ge compound (Fin (- 0.75)) then (''Negative'', ''danger'')
      else (''Very Negative'', ''danger''))"

definition badge :: \<open>string \<Rightarrow> string \<Rightarrow> string\<close> where
  \<open>badge color interpretation =
     ''<span class="badge bg-'' @ color @ '' fs-6">'' @ interpretation @ ''</span>''\<close>

definition interpretSentiment :: "jsnum \<Rightarrow> string" where
  "interpretSentiment compound =
     (case sentimentBand compound of (interpretation, color) \<Rightarrow> badge color interpretation)"

section \<open>Overview quick insights (the application controller)\<close>

text \<open>
  The \<open>sentimentLabel\<close> expression of \<open>displayOverview\<close>:
  \<^verbatim>\<open>sentiment > 0.5 ? 'Positive' : sentiment > 0 ? 'Moderately Positive' :
  sentiment > -0.5 ? 'Moderately Negative' : 'Negative'\<close>.
\<close>

definition sentimentLabel :: "jsnum \<Rightarrow> string" where
  "sentimentLabel sentiment =
     (if js_gt sentiment (Fin 0.5) then ''Positive''
      else if js_gt sentiment (Fin 0) then ''Moderately Positive''
      else if js_gt sentiment (Fin (- 0.5)) then ''Moderately Negative''
      else ''Negative'')"

section \<open>The analysis document\<close>

text \<open>
  The dashboard reads one JSON document. Parsed JSON values are trees; an object is an
  association list of its own properties.
\<close>

datatype json =
  JNull | JBool bool | JNum real | JStr string | JArr "json list" | JObj "(string \<times> json) list"

text \<open>
  The fields of the document that the modelled functions read, as records. Field names that
  would clash (\<open>id\<close>, \<open>term\<close>, \<open>count\<close>, \<open>word\<close>) carry a prefix. \<open>style_metrics\<close> stays a
  JSON tree, because it is read through string paths.
\<close>

record concept =
  kc_term :: string
  kc_variants :: "string list"
  kc_count :: int

record word_entry =
  bw_word :: string
  bw_count :: int

record text_data =
  text_id :: string
  title :: string
  word_count :: int
  unique_words :: int
  compound :: real
  style_metrics :: json
  key_concepts :: "concept list"
  top_100 :: "word_entry list"

record pair =
  text1 :: string
  text2 :: string
  shared_words :: int
  unique_to_text1 :: int
  unique_to_text2 :: int
  jaccard_similarity :: real
  overlap_percentage_text1 :: real
  overlap_percentage_text2 :: real

text \<open>\<open>comparative.vocabulary_overlap\<close>: the pair records and the nested similarity mapping.\<close>

record comparative =
  pairs :: "pair list"
  similarity_matrix :: "(string \<times> (string \<times> real) list) list"

record analysis =
  texts :: "text_data list"
  comparative :: comparative

datatype error = TypeError | HttpError nat | FetchFailed | JsonFailed

section \<open>The data loader: lookups in the loaded document\<close>

text \<open>
  The accessors of the data loader await \<open>loadData()\<close> and then read the document it returned.
  These are the reads, as functions of that document \<open>data\<close>; \<open>Array.prototype.find\<close> returns
  the first match or \<open>undefined\<close>, which is \<open>None\<close>.
\<close>

definition getTextById :: "analysis \<Rightarrow> string \<Rightarrow> text_data option" where
  "getTextById data textId = find (\<lambda>t. text_id t = textId) (texts data)"

definition getAllTexts :: "analysis \<Rightarrow> text_data list" where
  "getAllTexts data = texts data"

definition getComparativeData :: "analysis \<Rightarrow> comparative" where
  "getComparativeData data = comparative data"

definition getVocabularyOverlap :: "analysis \<Rightarrow> string \<Rightarrow> string \<Rightarrow> pair option" where
  "getVocabularyOverlap data text1Id text2Id =
     find (\<lambda>p. (text1 p = text1Id \<and> text2 p = text2Id) \<or> (text1 p = text2Id \<and> text2 p = text1Id))
       (pairs (comparative data))"

section \<open>The comparison module\<close>

subsection \<open>Nested values by path\<close>

text \<open>\<open>path.split('.')\<close>: the pieces between the dots, empty pieces included.\<close>

fun split_on :: "char \<Rightarrow> string \<Rightarrow> string list" where
  "split_on c [] = [[]]"
| "split_on c (x # xs) =
     (if x = c then [] # split_on c xs
      else (case split_on c xs of [] \<Rightarrow> [[x]] | w # ws \<Rightarrow> (x # w) # ws))"

text \<open>
  \<open>current?.[key]\<close>: \<open>undefined\<close> when \<open>current\<close> is \<open>undefined\<close> or \<open>null\<close>, the property
  of an object, and \<open>undefined\<close> for a property that a number, boolean, string or array does
  not have (the keys of the metric paths are neither indices nor built-in properties).
\<close>

fun get_prop :: "json option \<Rightarrow> string \<Rightarrow> json option" where
  "get_prop (Some (JObj kvs)) key = map_of kvs key"
| "get_prop _ key = None"

text \<open>The text object that the path lookup walks: the record as the JSON object it came from.\<close>

definition concept_json :: "concept \<Rightarrow> json" where
  "concept_json c =
     JObj [(''term'', JStr (kc_term c)), (''variants'', JArr (map JStr (kc_variants c))),
           (''count'', JNum (of_int (kc_count c)))]"

definition word_entry_json :: "word_entry \<Rightarrow> json" where
  "word_entry_json w = JObj [(''word'', JStr (bw_word w)), (''count'', JNum (of_int (bw_count w)))]"

definition text_json :: "text_data \<Rightarrow> json" where
  "text_json t =
     JObj [(''id'', JStr (text_id t)), (''title'', JStr (title t)),
           (''word_count'', JNum (of_int (word_count t))),
           (''unique_words'', JNum (of_int (unique_words t))),
           (''sentiment'', JObj [(''vader'', JObj [(''compound'', JNum (compound t))])]),
           (''style_metrics'', style_metrics t),
           (''key_concepts'', JArr (map concept_json (key_concepts t))),
           (''bag_of_words'', JObj [(''top_100'', JArr (map word_entry_json (top_100 t)))])]"

text \<open>\<open>path.split('.').reduce((current, key) => current?.[key], obj)\<close>.\<close>

definition getNestedValue :: "json \<Rightarrow> string \<Rightarrow> json option" where
  "getNestedValue obj path =
     fold (\<lambda>key current. get_prop current key) (split_on CHR ''.'' path) (Some obj)"

subsection \<open>Style metrics comparison\<close>

record metric =
  metric_key :: string
  metric_label :: string
  metric_path :: string
  metric_unit :: string

definition metrics :: "metric list" where
  "metrics =
     [\<lparr>metric_key = ''avg_sentence_length'', metric_label = ''Avg Sentence Length'',
        metric_path = ''style_metrics.sentences.avg_length'', metric_unit = '' words''\<rparr>,
      \<lparr>metric_key = ''flesch_reading_ease'', metric_label = ''Reading Ease'',
        metric_path = ''style_metrics.readability.flesch_reading_ease'', metric_unit = []\<rparr>,
      \<lparr>metric_key = ''flesch_kincaid'', metric_label = ''Grade Level'',
        metric_path = ''style_metrics.readability.flesch_kincaid_grade'', metric_unit = []\<rparr>,
      \<lparr>metric_key = ''avg_word_length'', metric_label = ''Avg Word Length'',
        metric_path = ''style_metrics.word_length.average'', metric_unit = '' chars''\<rparr>,
      \<lparr>metric_key = ''punct_density'', metric_label = ''Punctuation Density'',
        metric_path = ''style_metrics.punctuation.density_per_1000'', metric_unit = ''/1000''\<rparr>]"

text \<open>
  A cell calls \<open>val.toFixed(2)\<close>, which throws a TypeError unless \<open>val\<close> is a number. So a row
  is rendered only when every extracted value is a number; \<open>as_number\<close> is that test.
\<close>

fun as_number :: "json option \<Rightarrow> real option" where
  "as_number (Some (JNum r)) = Some r"
| "as_number _ = None"

fun all_numbers :: "json option list \<Rightarrow> real list option" where
  "all_numbers [] = Some []"
| "all_numbers (v # vs) =
     (case as_number v of None \<Rightarrow> None
      | Some r \<Rightarrow> (case all_numbers vs of None \<Rightarrow> None | Some rs \<Rightarrow> Some (r # rs)))"

text \<open>
  The class of a cell: \<open>val === max ? 'bg-success bg-opacity-10' :
  val === min ? 'bg-primary bg-opacity-10' : ''\<close>; the empty class is the empty string.
\<close>

definition className :: "jsnum \<Rightarrow> jsnum \<Rightarrow> real \<Rightarrow> string" where
  "className mn mx val =
     (if js_eq (Fin val) mx then ''bg-success bg-opacity-10''
      else if js_eq (Fin val) mn then ''bg-primary bg-opacity-10''
      else [])"

text \<open>
  One row of the table: the label, per text the value, its unit and its class, and the
  range in the last column. The decimal formatting of \<open>toFixed(2)\<close> is left to the printer.
\<close>

record style_row =
  row_label :: string
  row_cells :: "(real \<times> string \<times> string) list"
  row_range :: jsnum

definition styleRow :: "text_data list \<Rightarrow> metric \<Rightarrow> error + style_row" where
  "styleRow textsData m =
     (let values = map (\<lambda>t. getNestedValue (text_json t) (metric_path m)) textsData in
      case all_numbers values of
        None \<Rightarrow> Inl TypeError
      | Some vals \<Rightarrow>
          (let mn = Math_min vals; mx = Math_max vals; range = js_sub mx mn in
           Inr \<lparr>row_label = metric_label m,
                row_cells = map (\<lambda>val. (val, metric_unit m, className mn mx val)) vals,
                row_range = range\<rparr>))"

text \<open>Column headings: \<open>t.title.length > n ? t.title.substring(0, n) + '...' : t.title\<close>.\<close>

definition short_title :: "nat \<Rightarrow> string \<Rightarrow> string" where
  "short_title n s = (if n < length s then take n s @ ''...'' else s)"

text \<open>The rows are built in the order of \<open>metrics\<close>; the first row that throws ends the call.\<close>

fun collect :: "(error + 'a) list \<Rightarrow> error + 'a list" where
  "collect [] = Inr []"
| "collect (Inl e # _) = Inl e"
| "collect (Inr x # rs) = (case collect rs of Inl e \<Rightarrow> Inl e | Inr xs \<Rightarrow> Inr (x # xs))"

definition renderStyleComparison :: "text_data list \<Rightarrow> error + (string list \<times> style_row list)" where
  "renderStyleComparison textsData =
     (case collect (map (styleRow textsData) metrics) of
        Inl e \<Rightarrow> Inl e
      | Inr rows \<Rightarrow> Inr (map (\<lambda>t. short_title 20 (title t)) textsData, rows))"

subsection \<open>Similarity matrix and vocabulary overlap\<close>

text \<open>
  A cell of the similarity table. \<open>matrix[text1.id][text2.id]\<close> throws a TypeError when the
  matrix has no row for \<open>text1.id\<close>; a missing entry in a row is \<open>undefined\<close>, which the
  arithmetic turns into \<open>NaN\<close>. The cell keeps the percentage before \<open>toFixed(0)\<close> and the
  background: grey on the diagonal, else the red and green channel \<open>200 - colorIntensity\<close>.
\<close>

datatype bg_color = Grey | Rgb jsnum

record matrix_cell =
  percentage :: jsnum
  bgColor :: bg_color

definition matrix_cell_of :: "(string \<times> real) list \<Rightarrow> string \<Rightarrow> string \<Rightarrow> matrix_cell" where
  "matrix_cell_of row id1 id2 =
     (let similarity = (case map_of row id2 of None \<Rightarrow> NaN | Some r \<Rightarrow> Fin r);
          colorIntensity = Math_floor (js_mul similarity (Fin 200))
      in \<lparr>percentage = js_mul similarity (Fin 100),
          bgColor = (if id1 = id2 then Grey else Rgb (js_sub (Fin 200) colorIntensity))\<rparr>)"

definition renderSimilarityMatrix ::
  "text_data list \<Rightarrow> comparative \<Rightarrow> error + (string list \<times> (string \<times> matrix_cell list) list)" where
  "renderSimilarityMatrix textsData comparativeData =
     (let matrix = similarity_matrix comparativeData in
      case collect (map (\<lambda>text1.
             case map_of matrix (text_id text1) of
               None \<Rightarrow> Inl TypeError
             | Some row \<Rightarrow>
                 Inr (take 15 (title text1) @ ''...'',
                      map (\<lambda>text2. matrix_cell_of row (text_id text1) (text_id text2)) textsData))
             textsData) of
        Inl e \<Rightarrow> Inl e
      | Inr rows \<Rightarrow> Inr (map (\<lambda>t. take 15 (title t) @ ''...'') textsData, rows))"

text \<open>
  The three results of \<open>renderVocabularyOverlap\<close>: the similarity table when the selection is
  not two texts, a fixed message when the pair has no stored record, else the details of the
  record with the two titles.
\<close>

datatype overlap_view =
  SimilarityTable "string list" "(string \<times> matrix_cell list) list"
| Message string
| OverlapDetails pair string string

definition renderVocabularyOverlap ::
  \<open>text_data list \<Rightarrow> comparative \<Rightarrow> analysis \<Rightarrow> error + overlap_view\<close> where
  \<open>renderVocabularyOverlap textsData comparativeData data =
     (if length textsData \<noteq> 2 then
        (case renderSimilarityMatrix textsData comparativeData of
           Inl e \<Rightarrow> Inl e
         | Inr (header, rows) \<Rightarrow> Inr (SimilarityTable header rows))
      else
        (case getVocabularyOverlap data (text_id (textsData ! 0)) (text_id (textsData ! 1)) of
           None \<Rightarrow> Inr (Message ''<p class="text-muted">Vocabulary overlap data not available.</p>'')
         | Some overlap \<Rightarrow>
             Inr (OverlapDetails overlap (title (textsData ! 0)) (title (textsData ! 1)))))\<close>

subsection \<open>Overview, word cloud containers and the whole view\<close>

text \<open>
  \<open>obj.key\<close> on a value that is there: it throws a TypeError on \<open>null\<close>, gives the property
  of an object, and \<open>undefined\<close> for a property that a number, boolean, string or array
  does not have.
\<close>

fun js_member :: "json \<Rightarrow> string \<Rightarrow> error + json option" where
  "js_member (JObj kvs) key = Inr (map_of kvs key)"
| "js_member JNull key = Inl TypeError"
| "js_member _ key = Inr None"

text \<open>
  \<open>text.style_metrics.vocabulary.type_token_ratio.toFixed(4)\<close>, up to the formatting: the
  number at that place, and a TypeError when \<open>vocabulary\<close> is missing or null (a property
  is read from \<open>undefined\<close> or \<open>null\<close>) or when the value there is not a number (it has
  no \<open>toFixed\<close>).
\<close>

definition type_token_ratio :: "json \<Rightarrow> error + real" where
  "type_token_ratio sm =
     (case js_member sm ''vocabulary'' of
        Inl e \<Rightarrow> Inl e
      | Inr None \<Rightarrow> Inl TypeError
      | Inr (Some vocabulary) \<Rightarrow>
          (case js_member vocabulary ''type_token_ratio'' of
             Inl e \<Rightarrow> Inl e
           | Inr v \<Rightarrow> (case as_number v of None \<Rightarrow> Inl TypeError | Some r \<Rightarrow> Inr r)))"

text \<open>
  \<open>renderOverview\<close>: one table row per text with its title, word count, unique words,
  type-token ratio and compound sentiment; the first row that throws ends the call.
\<close>

record overview_row =
  ov_title :: string
  ov_words :: int
  ov_unique_words :: int
  ov_ttr :: real
  ov_sentiment :: real

definition renderOverview :: "text_data list \<Rightarrow> error + overview_row list" where
  "renderOverview textsData =
     collect (map (\<lambda>t.
        case type_token_ratio (style_metrics t) of
          Inl e \<Rightarrow> Inl e
        | Inr ttr \<Rightarrow>
            Inr \<lparr>ov_title = title t, ov_words = word_count t, ov_unique_words = unique_words t,
                 ov_ttr = ttr, ov_sentiment = compound t\<rparr>) textsData)"

text \<open>
  \<open>renderWordClouds\<close>: per text its title and the index \<open>i\<close> of its canvas
  \<open>comparison-wordcloud-i\<close>.
\<close>

definition renderWordClouds :: "text_data list \<Rightarrow> (string \<times> nat) list" where
  "renderWordClouds textsData = zip (map title textsData) [0..<length textsData]"

text \<open>
  \<open>display\<close> fills the comparison view from one template. Its sections are evaluated in
  order: overview, word cloud containers, style metrics, vocabulary overlap; a section that
  throws leaves the view unwritten. The sentiment canvas and the concepts container are
  fixed markup. The page is taken to have the container element (without it \<open>display\<close>
  returns at once); the charts and word clouds drawn later, from a timer, are not part of
  the result.
\<close>

record comparison_view =
  overview_section :: "overview_row list"
  wordclouds_section :: "(string \<times> nat) list"
  style_section :: "string list \<times> style_row list"
  overlap_section :: overlap_view

definition display :: "text_data list \<Rightarrow> comparative \<Rightarrow> analysis \<Rightarrow> error + comparison_view" where
  "display textsData comparativeData data =
     (case renderOverview textsData of
        Inl e \<Rightarrow> Inl e
      | Inr overview \<Rightarrow>
          (case renderStyleComparison textsData of
             Inl e \<Rightarrow> Inl e
           | Inr style \<Rightarrow>
               (case renderVocabularyOverlap textsData comparativeData data of
                  Inl e \<Rightarrow> Inl e
                | Inr overlap \<Rightarrow>
                    Inr \<lparr>overview_section = overview,
                         wordclouds_section = renderWordClouds textsData,
                         style_section = style, overlap_section = overlap\<rparr>)))"

section \<open>The word cloud module\<close>

text \<open>
  The \<open>words\<close> that \<open>generate\<close> hands to the layout: each word with the font size
  \<open>12 + ((w.count - minCount) / (maxCount - minCount)) * 48\<close>. The canvas is taken to
  exist (without it \<open>generate\<close> logs an error and returns); drawing is left out.
\<close>

definition generate :: "word_entry list \<Rightarrow> (string \<times> jsnum) list" where
  "generate wordData =
     (let maxCount = Math_max (map (\<lambda>w. of_int (bw_count w)) wordData);
          minCount = Math_min (map (\<lambda>w. of_int (bw_count w)) wordData)
      in map (\<lambda>w. (bw_word w,
                    js_add (Fin 12)
                      (js_mul (js_div (js_sub (Fin (of_int (bw_count w))) minCount)
                                      (js_sub maxCount minCount))
                              (Fin 48))))
           wordData)"

section \<open>The n-grams module: concept comparison\<close>

text \<open>A JavaScript \<open>Set\<close> keeps its members in insertion order: a list without repetition.\<close>

definition set_add :: "'a \<Rightarrow> 'a list \<Rightarrow> 'a list" where
  "set_add x s = (if x \<in> set s then s else s @ [x])"

definition set_delete :: "'a \<Rightarrow> 'a list \<Rightarrow> 'a list" where
  "set_delete x s = removeAll x s"

text \<open>
  \<open>displayConceptComparison\<close> collects the terms of all texts in a \<open>Set\<close> and builds one
  table row per term, with one cell per text: the count of the first concept of the text
  with that term, 0 when there is none. The content of a cell is
  \<open>count > 0 ? count : dash\<close>, the dash being a fixed string, and its class is
  \<open>text-muted\<close> unless the count is positive. The result is the header and the rows; the
  escaping of the row label for the page is left out.
\<close>

datatype concept_cell = Count int | Dash

definition allConcepts :: "text_data list \<Rightarrow> string list" where
  "allConcepts textsData =
     fold (\<lambda>t acc. fold (\<lambda>c acc'. set_add (kc_term c) acc') (key_concepts t) acc) textsData []"

definition concept_cell_of :: "string \<Rightarrow> text_data \<Rightarrow> string \<times> concept_cell" where
  "concept_cell_of conceptTerm t =
     (let concept = find (\<lambda>c. kc_term c = conceptTerm) (key_concepts t);
          count = (case concept of Some c \<Rightarrow> kc_count c | None \<Rightarrow> 0)
      in (if 0 < count then [] else ''text-muted'', if 0 < count then Count count else Dash))"

definition displayConceptComparison ::
  "text_data list \<Rightarrow> string list \<times> (string \<times> (string \<times> concept_cell) list) list" where
  "displayConceptComparison textsData =
     (let conceptsArray = allConcepts textsData in
      (map (\<lambda>t. short_title 20 (title t)) textsData,
       map (\<lambda>conceptTerm. (conceptTerm, map (concept_cell_of conceptTerm) textsData))
         conceptsArray))"

section \<open>The application controller: selecting texts for comparison\<close>

text \<open>
  The state that the comparison handlers read and write: the loaded texts and the \<open>Set\<close> of
  the ids ticked for comparison, whose \<open>size\<close> is the length of the list.
\<close>

record app_state =
  allTexts :: "text_data list"
  selectedTextsForComparison :: "string list"

text \<open>What a handler sets off: a call of \<open>showComparison\<close>, a call of \<open>Comparison.display\<close>.\<close>

datatype call = ShowComparison | ComparisonDisplay "text_data list"

text \<open>
  \<open>showComparison\<close> filters the texts by the selection, returns when fewer than two are
  left, and else calls \<open>Comparison.display\<close> with them.
\<close>

definition showComparison :: "app_state \<Rightarrow> call list" where
  "showComparison st =
     (let selectedTexts =
            filter (\<lambda>t. text_id t \<in> set (selectedTextsForComparison st)) (allTexts st)
      in if length selectedTexts < 2 then [] else [ComparisonDisplay selectedTexts])"

text \<open>The click handler of the compare button.\<close>

definition compareClick :: "app_state \<Rightarrow> call list" where
  "compareClick st =
     (if 2 \<le> length (selectedTextsForComparison st) then ShowComparison # showComparison st
      else [])"

definition closeComparison :: "app_state \<Rightarrow> app_state" where
  "closeComparison st = st\<lparr>selectedTextsForComparison := []\<rparr>"

datatype ui_event = CheckboxChange string bool | CompareClick | CloseComparisonClick

fun handle :: "ui_event \<Rightarrow> app_state \<Rightarrow> app_state \<times> call list" where
  "handle (CheckboxChange textId checked) st =
     (st\<lparr>selectedTextsForComparison :=
           (if checked then set_add textId (selectedTextsForComparison st)
            else set_delete textId (selectedTextsForComparison st))\<rparr>, [])"
| "handle CompareClick st = (st, compareClick st)"
| "handle CloseComparisonClick st = (closeComparison st, [])"

text \<open>The calls set off by a sequence of events, in order.\<close>

fun run_events :: "ui_event list \<Rightarrow> app_state \<Rightarrow> call list" where
  "run_events [] st = []"
| "run_events (e # es) st = (case handle e st of (st', calls) \<Rightarrow> calls @ run_events es st')"

section \<open>The data loader: fetching and caching\<close>

text \<open>
  The module keeps \<open>analysisData\<close> (null until loaded) and \<open>isLoading\<close>. \<open>fetches\<close> counts the
  requests issued; it is not in the source and only observes it.
\<close>

record loader =
  analysisData :: "analysis option"
  isLoading :: bool
  fetches :: nat

text \<open>
  \<open>loadData\<close> is asynchronous: a call runs up to its first \<open>await\<close> and is resumed when what
  it awaits settles. A call is a task at one of these points: waiting on the 100 ms timer
  inside \<open>while (isLoading)\<close>, awaiting \<open>fetch\<close>, awaiting \<open>response.json()\<close>, or finished
  with the value it returned (\<open>analysisData\<close>, which may be null) or the error it threw.
\<close>

datatype task = Waiting | AwaitFetch | AwaitJson | Returned "analysis option" | Thrown error

text \<open>What a task is resumed with.\<close>

datatype input =
  TimerFired | FetchRejected | FetchResponded bool nat | JsonRejected | JsonParsed analysis

text \<open>The call, up to the first \<open>await\<close> or the early return.\<close>

definition loadData :: "loader \<Rightarrow> task \<times> loader" where
  "loadData s =
     (case analysisData s of
        Some d \<Rightarrow> (Returned (Some d), s)
      | None \<Rightarrow>
          if isLoading s then (Waiting, s)
          else (AwaitFetch, s\<lparr>isLoading := True, fetches := fetches s + 1\<rparr>))"

text \<open>
  The rest of the call, from one \<open>await\<close> to the next. \<open>FetchResponded ok status\<close> is a
  response with its \<open>ok\<close> flag and status. An input that the task does not await leaves
  everything as it is.
\<close>

fun resume :: "input \<Rightarrow> task \<Rightarrow> loader \<Rightarrow> task \<times> loader" where
  "resume TimerFired Waiting s =
     (if isLoading s then (Waiting, s) else (Returned (analysisData s), s))"
| "resume FetchRejected AwaitFetch s = (Thrown FetchFailed, s\<lparr>isLoading := False\<rparr>)"
| "resume (FetchResponded ok status) AwaitFetch s =
     (if \<not> ok then (Thrown (HttpError status), s\<lparr>isLoading := False\<rparr>) else (AwaitJson, s))"
| "resume JsonRejected AwaitJson s = (Thrown JsonFailed, s\<lparr>isLoading := False\<rparr>)"
| "resume (JsonParsed d) AwaitJson s =
     (Returned (Some d), s\<lparr>analysisData := Some d, isLoading := False\<rparr>)"
| "resume _ t s = (t, s)"

definition clearCache :: "loader \<Rightarrow> loader" where
  "clearCache s = s\<lparr>analysisData := None\<rparr>"

text \<open>
  The module with the calls made so far. An event starts a call of \<open>loadData\<close>, resumes the
  call at an index, or clears the cache.
\<close>

datatype loader_event = CallLoadData | Resume nat input | ClearCache

fun step :: "loader_event \<Rightarrow> loader \<times> task list \<Rightarrow> loader \<times> task list" where
  "step CallLoadData (s, ts) = (case loadData s of (t, s') \<Rightarrow> (s', ts @ [t]))"
| "step (Resume i inp) (s, ts) =
     (if i < length ts then (case resume inp (ts ! i) s of (t, s') \<Rightarrow> (s', ts[i := t]))
      else (s, ts))"
| "step ClearCache (s, ts) = (clearCache s, ts)"

definition run :: "loader_event list \<Rightarrow> loader \<times> task list \<Rightarrow> loader \<times> task list" where
  "run evs st = fold step evs st"

definition initial :: "loader \<times> task list" where
  "initial = (\<lparr>analysisData = None, isLoading = False, fetches = 0\<rparr>, [])"

text \<open>
  An accessor is \<open>const data = await loadData(); return f(data)\<close>: pending while the call
  is, the read of the returned document, a TypeError when the call returned null, and the
  error of the call when it threw.
\<close>

datatype 'a outcome = Pending | Value 'a | Raised error

fun after_load :: "(analysis \<Rightarrow> 'a) \<Rightarrow> task \<Rightarrow> 'a outcome" where
  "after_load f (Returned (Some data)) = Value (f data)"
| "after_load f (Returned None) = Raised TypeError"
| "after_load f (Thrown e) = Raised e"
| "after_load f _ = Pending"

text \<open>A call awaits a fetch or its body.\<close>

fun inflight :: "task \<Rightarrow> bool" where
  "inflight AwaitFetch = True"
| "inflight AwaitJson = True"
| "inflight _ = False"

section \<open>The similarity matrix of the pipeline\<close>

text \<open>
  Modelled from the spec: the comparative engine of the batch pipeline, which builds the
  similarity matrix that the dashboard reads, is not among the sources. The spec gives
  Jaccard similarity of two vocabularies as intersection size over union size, 0 when the
  union is empty, and the matrix as the Jaccard similarity of every ordered pair of texts,
  self-pairs fixed at 1.0.
\<close>

definition jaccard :: "string set \<Rightarrow> string set \<Rightarrow> real" where
  "jaccard A B = (if A \<union> B = {} then 0 else real (card (A \<inter> B)) / real (card (A \<union> B)))"

definition similarityMatrix ::
  "(string \<times> string set) list \<Rightarrow> (string \<times> (string \<times> real) list) list" where
  "similarityMatrix corpus =
     map (\<lambda>(i, A). (i, map (\<lambda>(j, B). (j, if i = j then 1 else jaccard A B)) corpus)) corpus"

text \<open>\<open>matrix[i][j]\<close> where both lookups are defined.\<close>

definition matrix_at :: "(string \<times> (string \<times> real) list) list \<Rightarrow> string \<Rightarrow> string \<Rightarrow> real option" where
  "matrix_at m i j = (case map_of m i of None \<Rightarrow> None | Some row \<Rightarrow> map_of row j)"

section \<open>Consistency of the data loader\<close>

text \<open>
  At most one call is between its \<open>fetch\<close> and the end of its body, and while one is, the
  cache is empty and \<open>isLoading\<close> is set.
\<close>

definition one_fetch :: "loader \<times> task list \<Rightarrow> bool" where
  "one_fetch st =
     (case st of (s, ts) \<Rightarrow>
        \<forall>i<length ts. inflight (ts ! i) \<longrightarrow>
          analysisData s = None \<and> isLoading s \<and> (\<forall>j<length ts. inflight (ts ! j) \<longrightarrow> j = i))"

section \<open>A small document\<close>

text \<open>Three texts in the shape of the analysis document, for running the definitions.\<close>

definition style_json :: "real \<Rightarrow> real \<Rightarrow> real \<Rightarrow> real \<Rightarrow> real \<Rightarrow> real \<Rightarrow> json" where
  "style_json len ttr ease grade wlen dens =
     JObj [(''sentences'', JObj [(''count'', JNum 1200), (''avg_length'', JNum len)]),
           (''vocabulary'', JObj [(''type_token_ratio'', JNum ttr)]),
           (''readability'',
              JObj [(''flesch_reading_ease'', JNum ease), (''flesch_kincaid_grade'', JNum grade)]),
           (''word_length'', JObj [(''average'', JNum wlen)]),
           (''punctuation'', JObj [(''density_per_1000'', JNum dens)])]"

definition ecce_homo :: text_data where
  "ecce_homo =
     \<lparr>text_id = ''ecce_homo'', title = ''Ecce Homo'', word_count = 40000, unique_words = 6000,
      compound = 0.8, style_metrics = style_json 21.5 0.15 60 9.5 4.5 150,
      key_concepts =
        [\<lparr>kc_term = ''will to power'', kc_variants = [''will to power''], kc_count = 12\<rparr>,
         \<lparr>kc_term = ''eternal recurrence'', kc_variants = [''eternal return''], kc_count = 3\<rparr>],
      top_100 =
        [\<lparr>bw_word = ''life'', bw_count = 40\<rparr>, \<lparr>bw_word = ''man'', bw_count = 25\<rparr>,
         \<lparr>bw_word = ''god'', bw_count = 10\<rparr>]\<rparr>"

definition antichrist :: text_data where
  "antichrist =
     \<lparr>text_id = ''antichrist'', title = ''The Antichrist'', word_count = 30000,
      unique_words = 5100, compound = 0, style_metrics = style_json 18 0.17 55 11 4.75 170,
      key_concepts =
        [\<lparr>kc_term = ''will to power'', kc_variants = [''will to power''], kc_count = 7\<rparr>,
         \<lparr>kc_term = ''nihilism'', kc_variants = [''nihilism'', ''nihilist''], kc_count = 5\<rparr>],
      top_100 = [\<lparr>bw_word = ''god'', bw_count = 30\<rparr>, \<lparr>bw_word = ''priest'', bw_count = 30\<rparr>]\<rparr>"

definition birth_of_tragedy :: text_data where
  "birth_of_tragedy =
     \<lparr>text_id = ''birth_of_tragedy'', title = ''The Birth of Tragedy'', word_count = 50000,
      unique_words = 8000, compound = - 0.9, style_metrics = style_json 30 0.16 40 14 5 120,
      key_concepts = [],
      top_100 = [\<lparr>bw_word = ''art'', bw_count = 50\<rparr>]\<rparr>"

text \<open>
  A text without sentences: its ratios are 0 and its readability scores are the sentinel
  \<open>null\<close> that the document uses for an undefined score.
\<close>

definition sentence_less :: text_data where
  "sentence_less =
     \<lparr>text_id = ''fragment'', title = ''Fragment'', word_count = 0, unique_words = 0,
      compound = 0,
      style_metrics =
        JObj [(''sentences'', JObj [(''count'', JNum 0), (''avg_length'', JNum 0)]),
              (''vocabulary'', JObj [(''type_token_ratio'', JNum 0)]),
              (''readability'',
                 JObj [(''flesch_reading_ease'', JNull), (''flesch_kincaid_grade'', JNull)]),
              (''word_length'', JObj [(''average'', JNum 0)]),
              (''punctuation'', JObj [(''density_per_1000'', JNum 0)])],
      key_concepts = [], top_100 = []\<rparr>"

text \<open>
  The comparative section stores one pair record, for the first two texts, and the full
  similarity matrix of the three.
\<close>

definition sample_comparative :: comparative where
  "sample_comparative =
     \<lparr>pairs =
        [\<lparr>text1 = ''ecce_homo'', text2 = ''antichrist'', shared_words = 2,
          unique_to_text1 = 1, unique_to_text2 = 1, jaccard_similarity = 0.5,
          overlap_percentage_text1 = 66.67, overlap_percentage_text2 = 66.67\<rparr>],
      similarity_matrix =
        [(''ecce_homo'', [(''ecce_homo'', 1), (''antichrist'', 0.5), (''birth_of_tragedy'', 0.25)]),
         (''antichrist'', [(''ecce_homo'', 0.5), (''antichrist'', 1), (''birth_of_tragedy'', 0.25)]),
         (''birth_of_tragedy'',
            [(''ecce_homo'', 0.25), (''antichrist'', 0.25), (''birth_of_tragedy'', 1)])]\<rparr>"

definition sample_data :: analysis where
  "sample_data =
     \<lparr>texts = [ecce_homo, antichrist, birth_of_tragedy], comparative = sample_comparative\<rparr>"

text \<open>A comparative section whose matrix has no row for the third text.\<close>

definition partial_comparative :: comparative where
  "partial_comparative =
     \<lparr>pairs = [],
      similarity_matrix =
        [(''ecce_homo'', [(''ecce_homo'', 1), (''antichrist'', 0.5)]),
         (''antichrist'', [(''ecce_homo'', 0.5), (''antichrist'', 1)])]\<rparr>"

definition sample_corpus :: "(string \<times> string set) list" where
  "sample_corpus =
     [(''a'', {''power'', ''life'', ''will''}), (''b'', {''power'', ''life'', ''truth''}), (''c'', {})]"

section \<open>Properties of the sentiment labels\<close>

text \<open>
  Claim C1. For every compound score \<open>c\<close>, \<open>interpretSentiment\<close> returns the badge of exactly
  the label of the threshold contract: Very Positive from 0.75 up, Positive on [0.5, 0.75),
  Moderately Positive on [0.25, 0.5), Neutral on [-0.25, 0.25), Moderately Negative on
  [-0.5, -0.25), Negative on [-0.75, -0.5) and Very Negative otherwise, which takes in
  everything below -0.75, \<open>-Infinity\<close> and \<open>NaN\<close>; \<open>Infinity\<close> is Very Positive.
\<close>

theorem interpretSentiment_thresholds:
  "(0.75 \<le> c \<longrightarrow> interpretSentiment (Fin c) = badge ''success'' ''Very Positive'') \<and>
   (0.5 \<le> c \<and> c < 0.75 \<longrightarrow> interpretSentiment (Fin c) = badge ''success'' ''Positive'') \<and>
   (0.25 \<le> c \<and> c < 0.5 \<longrightarrow>
      interpretSentiment (Fin c) = badge ''info'' ''Moderately Positive'') \<and>
   (- 0.25 \<le> c \<and> c < 0.25 \<longrightarrow> interpretSentiment (Fin c) = badge ''secondary'' ''Neutral'') \<and>
   (- 0.5 \<le> c \<and> c < - 0.25 \<longrightarrow>
      interpretSentiment (Fin c) = badge ''warning'' ''Moderately Negative'') \<and>
   (- 0.75 \<le> c \<and> c < - 0.5 \<longrightarrow> interpretSentiment (Fin c) = badge ''danger'' ''Negative'') \<and>
   (c < - 0.75 \<longrightarrow> interpretSentiment (Fin c) = badge ''danger'' ''Very Negative'') \<and>
   interpretSentiment PInf = badge ''success'' ''Very Positive'' \<and>
   interpretSentiment NInf = badge ''danger'' ''Very Negative'' \<and>
   interpretSentiment NaN = badge ''danger'' ''Very Negative''"
  by (simp add: interpretSentiment_def sentimentBand_def)

theorem interpretSentiment_thresholds_witness:
  "interpretSentiment (Fin 0.9) = badge ''success'' ''Very Positive'' \<and>
   interpretSentiment (Fin 0.5) = badge ''success'' ''Positive'' \<and>
   interpretSentiment (Fin 0.3) = badge ''info'' ''Moderately Positive'' \<and>
   interpretSentiment (Fin 0) = badge ''secondary'' ''Neutral'' \<and>
   interpretSentiment (Fin (- 0.5)) = badge ''warning'' ''Moderately Negative'' \<and>
   interpretSentiment (Fin (- 0.75)) = badge ''danger'' ''Negative'' \<and>
   interpretSentiment (Fin (- 0.8)) = badge ''danger'' ''Very Negative''"
  using interpretSentiment_thresholds [of "0.9"] interpretSentiment_thresholds [of "0.5"]
    interpretSentiment_thresholds [of "0.3"] interpretSentiment_thresholds [of 0]
    interpretSentiment_thresholds [of "- 0.5"] interpretSentiment_thresholds [of "- 0.75"]
    interpretSentiment_thresholds [of "- 0.8"]
  by simp

text \<open>
  Claim C2. The overview label is claimed to agree with the label of \<open>interpretSentiment\<close> on
  every compound score in [-1, 1]. The code does not: at 1 and at 0.8 the overview says
  Positive where the contract says Very Positive, at 0.5 Moderately Positive where the
  contract says Positive, at 0 Moderately Negative where the contract says Neutral, and at
  -0.9 Negative where the contract says Very Negative.
\<close>

theorem sentimentLabel_disagrees:
  "sentimentLabel (Fin 1) = ''Positive'' \<and>
   fst (sentimentBand (Fin 1)) = ''Very Positive'' \<and>
   sentimentLabel (Fin 0.8) = ''Positive'' \<and>
   fst (sentimentBand (Fin 0.8)) = ''Very Positive'' \<and>
   sentimentLabel (Fin 0.5) = ''Moderately Positive'' \<and>
   fst (sentimentBand (Fin 0.5)) = ''Positive'' \<and>
   sentimentLabel (Fin 0) = ''Moderately Negative'' \<and>
   fst (sentimentBand (Fin 0)) = ''Neutral'' \<and>
   sentimentLabel (Fin (- 0.9)) = ''Negative'' \<and>
   fst (sentimentBand (Fin (- 0.9))) = ''Very Negative''"
  by (simp add: sentimentLabel_def sentimentBand_def)

section \<open>Properties of the pairwise lookup\<close>

lemma find_None_iff_all: "(find P xs = None) = (\<forall>x\<in>set xs. \<not> P x)"
  by (induction xs) auto

text \<open>
  Claim C4. The pairwise-overlap lookup does not depend on the order of the two ids:
  \<open>getVocabularyOverlap(a, b)\<close> and \<open>getVocabularyOverlap(b, a)\<close> return the same pair
  record (or both none), since a stored pair matches under either assignment.
\<close>

theorem getVocabularyOverlap_symmetric:
  "getVocabularyOverlap data a b = getVocabularyOverlap data b a"
  by (simp add: getVocabularyOverlap_def disj_commute)

section \<open>Properties of the comparison trigger\<close>

text \<open>The handlers keep the selection free of repetition, as a \<open>Set\<close> is.\<close>

lemma handle_distinct:
  "distinct (selectedTextsForComparison st) \<Longrightarrow>
   distinct (selectedTextsForComparison (fst (handle e st)))"
  by (cases e) (auto simp: set_add_def set_delete_def closeComparison_def distinct_removeAll)

lemma showComparison_calls:
  "c \<in> set (showComparison st) \<Longrightarrow> \<exists>ts. c = ComparisonDisplay ts \<and> 2 \<le> length ts"
  by (auto simp: showComparison_def Let_def split: if_splits)

lemma handle_calls:
  "handle e st = (st', calls) \<Longrightarrow> ComparisonDisplay ts \<in> set calls \<Longrightarrow> 2 \<le> length ts"
  by (cases e) (auto simp: compareClick_def split: if_splits dest: showComparison_calls)

lemma run_events_calls:
  "ComparisonDisplay ts \<in> set (run_events evs st) \<Longrightarrow> 2 \<le> length ts"
proof (induction evs arbitrary: st)
  case Nil
  then show ?case by simp
next
  case (Cons e evs)
  obtain st' calls where h: "handle e st = (st', calls)"
    by (cases "handle e st")
  with Cons.prems
  have "ComparisonDisplay ts \<in> set calls \<or> ComparisonDisplay ts \<in> set (run_events evs st')"
    by simp
  then show ?case
    using handle_calls [OF h] Cons.IH by blast
qed

text \<open>
  Claim C5. The comparison is never invoked with fewer than two texts. The click handler of
  the compare button calls \<open>showComparison\<close> only when at least two texts are selected, and
  does nothing otherwise; \<open>showComparison\<close> returns without calling \<open>Comparison.display\<close>
  when the filtered selection has fewer than two texts; so every call of
  \<open>Comparison.display\<close>, from \<open>showComparison\<close>, from the click handler or in the course of
  any sequence of checkbox changes, compare clicks and close clicks, passes at least two
  texts.
\<close>

theorem comparison_needs_two_texts:
  "(ShowComparison \<in> set (compareClick st) \<longrightarrow> 2 \<le> length (selectedTextsForComparison st)) \<and>
   (length (selectedTextsForComparison st) < 2 \<longrightarrow> compareClick st = []) \<and>
   (length (filter (\<lambda>t. text_id t \<in> set (selectedTextsForComparison st)) (allTexts st)) < 2
      \<longrightarrow> showComparison st = []) \<and>
   (\<forall>ts. ComparisonDisplay ts \<in> set (showComparison st) \<longrightarrow> 2 \<le> length ts) \<and>
   (\<forall>ts. ComparisonDisplay ts \<in> set (compareClick st) \<longrightarrow> 2 \<le> length ts) \<and>
   (\<forall>ts. ComparisonDisplay ts \<in> set (run_events evs st) \<longrightarrow> 2 \<le> length ts)"
proof -
  have a: "ShowComparison \<in> set (compareClick st) \<longrightarrow> 2 \<le> length (selectedTextsForComparison st)"
    by (simp add: compareClick_def)
  have b: "length (selectedTextsForComparison st) < 2 \<longrightarrow> compareClick st = []"
    by (simp add: compareClick_def)
  have c: "length (filter (\<lambda>t. text_id t \<in> set (selectedTextsForComparison st)) (allTexts st)) < 2
      \<longrightarrow> showComparison st = []"
    by (simp add: showComparison_def)
  have d: "\<forall>ts. ComparisonDisplay ts \<in> set (showComparison st) \<longrightarrow> 2 \<le> length ts"
    using showComparison_calls by blast
  have e: "\<forall>ts. ComparisonDisplay ts \<in> set (compareClick st) \<longrightarrow> 2 \<le> length ts"
    using handle_calls [of CompareClick st st "compareClick st"] by simp
  have f: "\<forall>ts. ComparisonDisplay ts \<in> set (run_events evs st) \<longrightarrow> 2 \<le> length ts"
    using run_events_calls by blast
  show ?thesis
    using a b c d e f by blast
qed

theorem comparison_needs_two_texts_witness:
  "ShowComparison \<in>
     set (compareClick \<lparr>allTexts = texts sample_data,
                        selectedTextsForComparison = [''ecce_homo'', ''antichrist'']\<rparr>) \<and>
   compareClick \<lparr>allTexts = texts sample_data, selectedTextsForComparison = [''ecce_homo'']\<rparr> = [] \<and>
   showComparison \<lparr>allTexts = texts sample_data,
                   selectedTextsForComparison = [''ecce_homo'', ''zarathustra'']\<rparr> = [] \<and>
   ComparisonDisplay [ecce_homo, antichrist] \<in>
     set (run_events
            [CheckboxChange ''antichrist'' True, CompareClick,
             CheckboxChange ''ecce_homo'' True, CompareClick]
            \<lparr>allTexts = texts sample_data, selectedTextsForComparison = []\<rparr>) \<and>
   2 \<le> length [ecce_homo, antichrist]"
proof -
  let ?two = "\<lparr>allTexts = texts sample_data,
               selectedTextsForComparison = [''ecce_homo'', ''antichrist'']\<rparr>"
  let ?one = "\<lparr>allTexts = texts sample_data, selectedTextsForComparison = [''ecce_homo'']\<rparr>"
  let ?odd = "\<lparr>allTexts = texts sample_data,
               selectedTextsForComparison = [''ecce_homo'', ''zarathustra'']\<rparr>"
  let ?none = "\<lparr>allTexts = texts sample_data, selectedTextsForComparison = []\<rparr>"
  let ?evs = "[CheckboxChange ''antichrist'' True, CompareClick,
               CheckboxChange ''ecce_homo'' True, CompareClick]"
  have ids: "text_id ecce_homo = ''ecce_homo''" "text_id antichrist = ''antichrist''"
    "text_id birth_of_tragedy = ''birth_of_tragedy''"
    by (simp_all add: ecce_homo_def antichrist_def birth_of_tragedy_def)
  have a: "ShowComparison \<in> set (compareClick ?two)"
    by (simp add: compareClick_def)
  have b: "length (selectedTextsForComparison ?one) < 2"
    by simp
  have c: "length (filter (\<lambda>t. text_id t \<in> set (selectedTextsForComparison ?odd))
             (allTexts ?odd)) < 2"
    by (simp add: sample_data_def ids)
  have d: "ComparisonDisplay [ecce_homo, antichrist] \<in> set (run_events ?evs ?none)"
    by (simp add: compareClick_def showComparison_def set_add_def sample_data_def ids)
  show ?thesis
    using a b c d comparison_needs_two_texts [of ?one ?evs]
      comparison_needs_two_texts [of ?odd ?evs] comparison_needs_two_texts [of ?none ?evs]
    by blast
qed

section \<open>Properties of the concept comparison table\<close>

lemma set_set_add: "set (set_add x s) = insert x (set s)"
  by (auto simp: set_add_def)

lemma distinct_set_add: "distinct s \<Longrightarrow> distinct (set_add x s)"
  by (simp add: set_add_def)

lemma fold_set_add:
  "set (fold (\<lambda>c acc. set_add (f c) acc) cs acc) = set acc \<union> f ` set cs \<and>
   (distinct acc \<longrightarrow> distinct (fold (\<lambda>c acc. set_add (f c) acc) cs acc))"
  by (induction cs arbitrary: acc) (auto simp: set_set_add distinct_set_add)

lemma fold_texts_set_add:
  "set (fold (\<lambda>t acc. fold (\<lambda>c acc'. set_add (kc_term c) acc') (key_concepts t) acc) ts acc)
     = set acc \<union> (\<Union>t\<in>set ts. kc_term ` set (key_concepts t)) \<and>
   (distinct acc \<longrightarrow>
     distinct (fold (\<lambda>t acc. fold (\<lambda>c acc'. set_add (kc_term c) acc') (key_concepts t) acc) ts acc))"
proof (induction ts arbitrary: acc)
  case Nil
  then show ?case by simp
next
  case (Cons t ts)
  let ?acc = "fold (\<lambda>c acc'. set_add (kc_term c) acc') (key_concepts t) acc"
  have s: "set ?acc = set acc \<union> kc_term ` set (key_concepts t)"
    and d: "distinct acc \<longrightarrow> distinct ?acc"
    using fold_set_add [of kc_term "key_concepts t" acc] by blast+
  show ?case
    using Cons.IH [of ?acc] s d by auto
qed

lemma set_allConcepts:
  "set (allConcepts ts) = (\<Union>t\<in>set ts. kc_term ` set (key_concepts t))"
  using fold_texts_set_add [of ts "[]"] by (simp add: allConcepts_def)

lemma distinct_allConcepts: "distinct (allConcepts ts)"
  using fold_texts_set_add [of ts "[]"] by (simp add: allConcepts_def)

lemma concept_cell_of_absent:
  "conceptTerm \<notin> kc_term ` set (key_concepts t) \<Longrightarrow>
   concept_cell_of conceptTerm t = (''text-muted'', Dash)"
proof -
  assume "conceptTerm \<notin> kc_term ` set (key_concepts t)"
  then have "find (\<lambda>c. kc_term c = conceptTerm) (key_concepts t) = None"
    unfolding find_None_iff_all by blast
  then show ?thesis
    by (simp add: concept_cell_of_def)
qed

text \<open>
  Claim C9. In the concept comparison table the row labels are the concept terms of the
  selected texts, each exactly once: no label is repeated, and the labels are the union of
  the terms of all texts. Every row has one cell per text, and the cell of a text whose
  \<open>key_concepts\<close> lacks the term holds count 0, shown as the muted dash.
\<close>

theorem concept_table_rows:
  "distinct (map fst (snd (displayConceptComparison textsData))) \<and>
   set (map fst (snd (displayConceptComparison textsData))) =
     (\<Union>t\<in>set textsData. kc_term ` set (key_concepts t)) \<and>
   (\<forall>(conceptTerm, cells)\<in>set (snd (displayConceptComparison textsData)).
      length cells = length textsData \<and>
      (\<forall>i<length textsData.
         conceptTerm \<notin> kc_term ` set (key_concepts (textsData ! i)) \<longrightarrow>
         cells ! i = (''text-muted'', Dash)))"
proof -
  have rows: "snd (displayConceptComparison textsData) =
      map (\<lambda>conceptTerm. (conceptTerm, map (concept_cell_of conceptTerm) textsData))
        (allConcepts textsData)"
    by (simp add: displayConceptComparison_def)
  have terms: "map fst (snd (displayConceptComparison textsData)) = allConcepts textsData"
    unfolding rows by (simp add: comp_def)
  have a: "distinct (map fst (snd (displayConceptComparison textsData)))"
    unfolding terms by (rule distinct_allConcepts)
  have b: "set (map fst (snd (displayConceptComparison textsData))) =
     (\<Union>t\<in>set textsData. kc_term ` set (key_concepts t))"
    unfolding terms by (rule set_allConcepts)
  have c: "\<forall>(conceptTerm, cells)\<in>set (snd (displayConceptComparison textsData)).
      length cells = length textsData \<and>
      (\<forall>i<length textsData.
         conceptTerm \<notin> kc_term ` set (key_concepts (textsData ! i)) \<longrightarrow>
         cells ! i = (''text-muted'', Dash))"
    unfolding rows by (auto simp: concept_cell_of_absent)
  show ?thesis
    using a b c by blast
qed

theorem concept_table_rows_witness:
  "snd (displayConceptComparison [ecce_homo, antichrist, birth_of_tragedy]) =
     [(''will to power'', [([], Count 12), ([], Count 7), (''text-muted'', Dash)]),
      (''eternal recurrence'', [([], Count 3), (''text-muted'', Dash), (''text-muted'', Dash)]),
      (''nihilism'', [(''text-muted'', Dash), ([], Count 5), (''text-muted'', Dash)])] \<and>
   (0::nat) < length [ecce_homo, antichrist, birth_of_tragedy] \<and>
   ''nihilism'' \<notin> kc_term ` set (key_concepts ([ecce_homo, antichrist, birth_of_tragedy] ! 0)) \<and>
   [(''text-muted'', Dash), ([], Count 5), (''text-muted'', Dash)] ! 0 = (''text-muted'', Dash) \<and>
   distinct [''will to power'', ''eternal recurrence'', ''nihilism'']"
proof -
  let ?ts = "[ecce_homo, antichrist, birth_of_tragedy]"
  have concepts: "allConcepts ?ts = [''will to power'', ''eternal recurrence'', ''nihilism'']"
    by (simp add: allConcepts_def set_add_def ecce_homo_def antichrist_def birth_of_tragedy_def)
  have rows: "snd (displayConceptComparison ?ts) =
     [(''will to power'', [([], Count 12), ([], Count 7), (''text-muted'', Dash)]),
      (''eternal recurrence'', [([], Count 3), (''text-muted'', Dash), (''text-muted'', Dash)]),
      (''nihilism'', [(''text-muted'', Dash), ([], Count 5), (''text-muted'', Dash)])]"
    unfolding displayConceptComparison_def Let_def concepts
    by (simp add: concept_cell_of_def ecce_homo_def antichrist_def birth_of_tragedy_def)
  have absent: "''nihilism'' \<notin> kc_term ` set (key_concepts (?ts ! 0))"
    by (simp add: ecce_homo_def)
  show ?thesis
    using rows absent concept_table_rows [of ?ts] by simp
qed

section \<open>Properties of the style metrics table\<close>

lemma all_numbers_numbers: "all_numbers (map (\<lambda>v. Some (JNum v)) vals) = Some vals"
  by (induction vals) simp_all

lemma Math_max_Max: "vals \<noteq> [] \<Longrightarrow> Math_max vals = Fin (Max (set vals))"
  using Max.set_eq_fold [of "hd vals" "tl vals"] by (cases vals) simp_all

lemma Math_min_Min: "vals \<noteq> [] \<Longrightarrow> Math_min vals = Fin (Min (set vals))"
  using Min.set_eq_fold [of "hd vals" "tl vals"] by (cases vals) simp_all

text \<open>The five metric paths, split at the dots.\<close>

lemma avg_length_path:
  "split_on CHR ''.'' ''style_metrics.sentences.avg_length''
     = [''style_metrics'', ''sentences'', ''avg_length'']"
  by simp

lemma reading_ease_path:
  "split_on CHR ''.'' ''style_metrics.readability.flesch_reading_ease''
     = [''style_metrics'', ''readability'', ''flesch_reading_ease'']"
  by simp

lemma grade_path:
  "split_on CHR ''.'' ''style_metrics.readability.flesch_kincaid_grade''
     = [''style_metrics'', ''readability'', ''flesch_kincaid_grade'']"
  by simp

lemma word_length_path:
  "split_on CHR ''.'' ''style_metrics.word_length.average''
     = [''style_metrics'', ''word_length'', ''average'']"
  by simp

lemma density_path:
  "split_on CHR ''.'' ''style_metrics.punctuation.density_per_1000''
     = [''style_metrics'', ''punctuation'', ''density_per_1000'']"
  by simp

text \<open>
  On a text whose style metrics hold a number at each of the five places, the five paths of
  the table extract exactly those numbers.
\<close>

lemma style_json_paths:
  assumes "style_metrics t = style_json len ttr ease grade wlen dens"
  shows "getNestedValue (text_json t) ''style_metrics.sentences.avg_length'' = Some (JNum len)"
    and "getNestedValue (text_json t) ''style_metrics.readability.flesch_reading_ease''
           = Some (JNum ease)"
    and "getNestedValue (text_json t) ''style_metrics.readability.flesch_kincaid_grade''
           = Some (JNum grade)"
    and "getNestedValue (text_json t) ''style_metrics.word_length.average'' = Some (JNum wlen)"
    and "getNestedValue (text_json t) ''style_metrics.punctuation.density_per_1000''
           = Some (JNum dens)"
  unfolding getNestedValue_def avg_length_path reading_ease_path grade_path word_length_path
    density_path
  by (simp_all add: text_json_def assms style_json_def)

text \<open>
  The numeric case. For a non-empty list of texts and a metric whose path leads to a number
  in every text, the computed \<open>min\<close> and \<open>max\<close> are the minimum and the maximum of those
  numbers; the row holds exactly those numbers, in the order of the texts; its last column,
  the range, is the maximum minus the minimum; and a cell is highlighted exactly when its
  value is the maximum or the minimum: with the class of the highest value exactly when it
  is the maximum, and with the class of the lowest value exactly when it is the minimum and
  not also the maximum.
\<close>

lemma styleRow_extremes:
  assumes "textsData \<noteq> []"
    and "map (\<lambda>t. getNestedValue (text_json t) (metric_path m)) textsData =
         map (\<lambda>v. Some (JNum v)) vals"
  shows "Math_min vals = Fin (Min (set vals)) \<and> Math_max vals = Fin (Max (set vals)) \<and>
   (\<exists>cells.
     styleRow textsData m =
       Inr \<lparr>row_label = metric_label m, row_cells = cells,
            row_range = Fin (Max (set vals) - Min (set vals))\<rparr> \<and>
     map fst cells = vals \<and>
     (\<forall>(val, unit, cls)\<in>set cells.
        (cls \<noteq> [] \<longleftrightarrow> val = Max (set vals) \<or> val = Min (set vals)) \<and>
        (cls = ''bg-success bg-opacity-10'' \<longleftrightarrow> val = Max (set vals)) \<and>
        (cls = ''bg-primary bg-opacity-10'' \<longleftrightarrow> val = Min (set vals) \<and> val \<noteq> Max (set vals))))"
proof -
  from assms have ne: "vals \<noteq> []"
    by auto
  let ?mx = "Max (set vals)" and ?mn = "Min (set vals)"
  let ?cells = "map (\<lambda>val. (val, metric_unit m, className (Fin ?mn) (Fin ?mx) val)) vals"
  have row: "styleRow textsData m =
       Inr \<lparr>row_label = metric_label m, row_cells = ?cells, row_range = Fin (?mx - ?mn)\<rparr>"
    using assms(2) ne
    by (simp add: styleRow_def all_numbers_numbers Math_max_Max Math_min_Min js_sub_def)
  have vs: "map fst ?cells = vals"
    by (simp add: comp_def)
  have cls: "\<forall>(val, unit, cls)\<in>set ?cells.
        (cls \<noteq> [] \<longleftrightarrow> val = ?mx \<or> val = ?mn) \<and>
        (cls = ''bg-success bg-opacity-10'' \<longleftrightarrow> val = ?mx) \<and>
        (cls = ''bg-primary bg-opacity-10'' \<longleftrightarrow> val = ?mn \<and> val \<noteq> ?mx)"
    by (auto simp: className_def)
  have "\<exists>cells.
     styleRow textsData m =
       Inr \<lparr>row_label = metric_label m, row_cells = cells, row_range = Fin (?mx - ?mn)\<rparr> \<and>
     map fst cells = vals \<and>
     (\<forall>(val, unit, cls)\<in>set cells.
        (cls \<noteq> [] \<longleftrightarrow> val = ?mx \<or> val = ?mn) \<and>
        (cls = ''bg-success bg-opacity-10'' \<longleftrightarrow> val = ?mx) \<and>
        (cls = ''bg-primary bg-opacity-10'' \<longleftrightarrow> val = ?mn \<and> val \<noteq> ?mx))"
    using row vs cls by (intro exI conjI)
  then show ?thesis
    using Math_min_Min [OF ne] Math_max_Max [OF ne] by (intro conjI)
qed

text \<open>A row never throws when every text holds numbers at the path of the metric.\<close>

lemma styleRow_numbers:
  "map (\<lambda>t. getNestedValue (text_json t) (metric_path m)) textsData
     = map (\<lambda>v. Some (JNum v)) vals \<Longrightarrow>
   \<exists>row. styleRow textsData m = Inr row"
  by (simp add: styleRow_def all_numbers_numbers Let_def)

lemma sample_style_metrics:
  "style_metrics ecce_homo = style_json 21.5 0.15 60 9.5 4.5 150"
  "style_metrics antichrist = style_json 18 0.17 55 11 4.75 170"
  "style_metrics birth_of_tragedy = style_json 30 0.16 40 14 5 120"
  by (simp_all add: ecce_homo_def antichrist_def birth_of_tragedy_def)

lemma sample_metrics:
  "map metric_path metrics =
     [''style_metrics.sentences.avg_length'', ''style_metrics.readability.flesch_reading_ease'',
      ''style_metrics.readability.flesch_kincaid_grade'', ''style_metrics.word_length.average'',
      ''style_metrics.punctuation.density_per_1000'']"
  "map metric_label metrics =
     [''Avg Sentence Length'', ''Reading Ease'', ''Grade Level'', ''Avg Word Length'',
      ''Punctuation Density'']"
  by (simp_all add: metrics_def)

lemma reading_ease_row:
  "styleRow [ecce_homo, antichrist, birth_of_tragedy] (metrics ! 1) =
     Inr \<lparr>row_label = ''Reading Ease'',
          row_cells = [(60, [], ''bg-success bg-opacity-10''), (55, [], []),
                       (40, [], ''bg-primary bg-opacity-10'')],
          row_range = Fin 20\<rparr>"
proof -
  have m: "metric_path (metrics ! 1) = ''style_metrics.readability.flesch_reading_ease''"
    "metric_label (metrics ! 1) = ''Reading Ease''" "metric_unit (metrics ! 1) = []"
    by (simp_all add: metrics_def)
  show ?thesis
    unfolding styleRow_def m
    by (simp add: style_json_paths [OF sample_style_metrics(1)]
        style_json_paths [OF sample_style_metrics(2)]
        style_json_paths [OF sample_style_metrics(3)] className_def js_sub_def)
qed

lemma sentinel_paths:
  "getNestedValue (text_json sentence_less) ''style_metrics.sentences.avg_length''
     = Some (JNum 0)"
  "getNestedValue (text_json sentence_less) ''style_metrics.readability.flesch_reading_ease''
     = Some JNull"
  unfolding getNestedValue_def avg_length_path reading_ease_path
  by (simp_all add: text_json_def sentence_less_def)

lemma collect_stops: "collect (Inr x # Inl e # rs) = Inl e"
  by simp

lemma sample_overview:
  "renderOverview [ecce_homo, sentence_less] =
     Inr [\<lparr>ov_title = ''Ecce Homo'', ov_words = 40000, ov_unique_words = 6000, ov_ttr = 0.15,
           ov_sentiment = 0.8\<rparr>,
          \<lparr>ov_title = ''Fragment'', ov_words = 0, ov_unique_words = 0, ov_ttr = 0,
           ov_sentiment = 0\<rparr>]"
  by (simp add: renderOverview_def type_token_ratio_def ecce_homo_def sentence_less_def
      style_json_def)

text \<open>
  Claim C6. The style table is claimed to report minimum, maximum and range and to highlight
  the extremes for every non-empty list of texts and every metric path. The code does so only
  when every extracted value is a number. A text without sentences carries the sentinel
  \<open>null\<close> at its reading ease: \<open>getNestedValue\<close> returns it without complaint, and then the
  row of that metric throws a TypeError at \<open>val.toFixed(2)\<close>, so that the whole style table
  and the whole comparison view are lost, although the same text compares well on sentence
  length and the other texts compare well on reading ease.
\<close>

theorem styleRow_throws_on_sentinel:
  "getNestedValue (text_json sentence_less) ''style_metrics.readability.flesch_reading_ease''
     = Some JNull \<and>
   styleRow [ecce_homo, sentence_less] (metrics ! 0) =
     Inr \<lparr>row_label = ''Avg Sentence Length'',
          row_cells = [(21.5, '' words'', ''bg-success bg-opacity-10''),
                       (0, '' words'', ''bg-primary bg-opacity-10'')],
          row_range = Fin 21.5\<rparr> \<and>
   styleRow [ecce_homo, sentence_less] (metrics ! 1) = Inl TypeError \<and>
   renderStyleComparison [ecce_homo, sentence_less] = Inl TypeError \<and>
   display [ecce_homo, sentence_less] sample_comparative sample_data = Inl TypeError \<and>
   styleRow [ecce_homo, antichrist, birth_of_tragedy] (metrics ! 1) =
     Inr \<lparr>row_label = ''Reading Ease'',
          row_cells = [(60, [], ''bg-success bg-opacity-10''), (55, [], []),
                       (40, [], ''bg-primary bg-opacity-10'')],
          row_range = Fin 20\<rparr>"
proof -
  have m0: "metric_path (metrics ! 0) = ''style_metrics.sentences.avg_length''"
    "metric_label (metrics ! 0) = ''Avg Sentence Length''" "metric_unit (metrics ! 0) = '' words''"
    by (simp_all add: metrics_def)
  have m1: "metric_path (metrics ! 1) = ''style_metrics.readability.flesch_reading_ease''"
    by (simp add: metrics_def)
  have r0: "styleRow [ecce_homo, sentence_less] (metrics ! 0) =
     Inr \<lparr>row_label = ''Avg Sentence Length'',
          row_cells = [(21.5, '' words'', ''bg-success bg-opacity-10''),
                       (0, '' words'', ''bg-primary bg-opacity-10'')],
          row_range = Fin 21.5\<rparr>"
    unfolding styleRow_def m0
    by (simp add: style_json_paths [OF sample_style_metrics(1)] sentinel_paths
        className_def js_sub_def)
  have r1: "styleRow [ecce_homo, sentence_less] (metrics ! 1) = Inl TypeError"
    unfolding styleRow_def m1
    by (simp add: style_json_paths [OF sample_style_metrics(1)] sentinel_paths)
  have ms: "metrics = metrics ! 0 # metrics ! 1 # drop 2 metrics"
    by (simp add: metrics_def)
  have "map (styleRow [ecce_homo, sentence_less]) metrics =
      styleRow [ecce_homo, sentence_less] (metrics ! 0) #
      styleRow [ecce_homo, sentence_less] (metrics ! 1) #
      map (styleRow [ecce_homo, sentence_less]) (drop 2 metrics)"
    by (subst ms) simp
  then have rs: "renderStyleComparison [ecce_homo, sentence_less] = Inl TypeError"
    unfolding renderStyleComparison_def r0 r1 by (simp only: collect_stops sum.case)
  have d: "display [ecce_homo, sentence_less] sample_comparative sample_data = Inl TypeError"
    unfolding display_def sample_overview rs by simp
  from sentinel_paths(2) r0 r1 rs d reading_ease_row show ?thesis
    by (intro conjI)
qed

section \<open>Properties of the comparison view\<close>

lemma all_numbers_Some:
  "\<forall>v\<in>set vs. \<exists>r. v = Some (JNum r) \<Longrightarrow> \<exists>rs. all_numbers vs = Some rs"
  by (induction vs) auto

lemma collect_all_Inr: "\<forall>r\<in>set rs. \<exists>x. r = Inr x \<Longrightarrow> \<exists>xs. collect rs = Inr xs"
  by (induction rs) auto

text \<open>
  On texts whose style metrics hold a number at the type-token ratio and at each place that
  the style table reads, neither the overview nor the style table throws.
\<close>

lemma styleRow_well_formed:
  assumes wf: "\<forall>t\<in>set textsData. \<exists>len ttr ease grade wlen dens.
      style_metrics t = style_json len ttr ease grade wlen dens"
    and m: "m \<in> set metrics"
  shows "\<exists>row. styleRow textsData m = Inr row"
proof -
  from m have "metric_path m \<in> set (map metric_path metrics)"
    by simp
  then have p: "metric_path m \<in>
      {''style_metrics.sentences.avg_length'', ''style_metrics.readability.flesch_reading_ease'',
       ''style_metrics.readability.flesch_kincaid_grade'', ''style_metrics.word_length.average'',
       ''style_metrics.punctuation.density_per_1000''}"
    unfolding sample_metrics by simp
  have "\<forall>v\<in>set (map (\<lambda>t. getNestedValue (text_json t) (metric_path m)) textsData).
      \<exists>r. v = Some (JNum r)"
  proof
    fix v
    assume "v \<in> set (map (\<lambda>t. getNestedValue (text_json t) (metric_path m)) textsData)"
    then obtain t where t: "t \<in> set textsData"
      and v: "v = getNestedValue (text_json t) (metric_path m)"
      by auto
    from wf t obtain len ttr ease grade wlen dens
      where sm: "style_metrics t = style_json len ttr ease grade wlen dens"
      by blast
    from p show "\<exists>r. v = Some (JNum r)"
      unfolding v by (auto simp: style_json_paths [OF sm])
  qed
  then obtain rs where
    "all_numbers (map (\<lambda>t. getNestedValue (text_json t) (metric_path m)) textsData) = Some rs"
    using all_numbers_Some by blast
  then show ?thesis
    by (simp add: styleRow_def Let_def)
qed

lemma renderStyleComparison_well_formed:
  assumes "\<forall>t\<in>set textsData. \<exists>len ttr ease grade wlen dens.
      style_metrics t = style_json len ttr ease grade wlen dens"
  shows "\<exists>style. renderStyleComparison textsData = Inr style"
proof -
  have "\<forall>r\<in>set (map (styleRow textsData) metrics). \<exists>x. r = Inr x"
    using styleRow_well_formed [OF assms] by auto
  then obtain rows where "collect (map (styleRow textsData) metrics) = Inr rows"
    using collect_all_Inr by blast
  then show ?thesis
    by (simp add: renderStyleComparison_def)
qed

lemma sample_well_formed:
  "\<forall>t\<in>set [ecce_homo, antichrist, birth_of_tragedy]. \<exists>len ttr ease grade wlen dens.
      style_metrics t = style_json len ttr ease grade wlen dens"
  "\<forall>t\<in>set [ecce_homo, birth_of_tragedy]. \<exists>len ttr ease grade wlen dens.
      style_metrics t = style_json len ttr ease grade wlen dens"
proof -
  have "\<And>a b c d e f. \<exists>len ttr ease grade wlen dens.
      style_json a b c d e f = style_json len ttr ease grade wlen dens"
    by blast
  then show
    "\<forall>t\<in>set [ecce_homo, antichrist, birth_of_tragedy]. \<exists>len ttr ease grade wlen dens.
      style_metrics t = style_json len ttr ease grade wlen dens"
    "\<forall>t\<in>set [ecce_homo, birth_of_tragedy]. \<exists>len ttr ease grade wlen dens.
      style_metrics t = style_json len ttr ease grade wlen dens"
    by (simp_all add: sample_style_metrics)
qed

lemma sample_overviews:
  "renderOverview [ecce_homo, birth_of_tragedy] =
     Inr [\<lparr>ov_title = ''Ecce Homo'', ov_words = 40000, ov_unique_words = 6000, ov_ttr = 0.15,
           ov_sentiment = 0.8\<rparr>,
          \<lparr>ov_title = ''The Birth of Tragedy'', ov_words = 50000, ov_unique_words = 8000,
           ov_ttr = 0.16, ov_sentiment = - 0.9\<rparr>]"
  "renderOverview [ecce_homo, antichrist, birth_of_tragedy] =
     Inr [\<lparr>ov_title = ''Ecce Homo'', ov_words = 40000, ov_unique_words = 6000, ov_ttr = 0.15,
           ov_sentiment = 0.8\<rparr>,
          \<lparr>ov_title = ''The Antichrist'', ov_words = 30000, ov_unique_words = 5100,
           ov_ttr = 0.17, ov_sentiment = 0\<rparr>,
          \<lparr>ov_title = ''The Birth of Tragedy'', ov_words = 50000, ov_unique_words = 8000,
           ov_ttr = 0.16, ov_sentiment = - 0.9\<rparr>]"
  by (simp_all add: renderOverview_def type_token_ratio_def ecce_homo_def antichrist_def
      birth_of_tragedy_def style_json_def)




text \<open>
  On the path of the similarity matrix nothing guards a text id that the matrix lacks:
  reading its row throws a TypeError, and the whole comparison view is lost.
\<close>

lemma missing_matrix_row_throws:
  "renderVocabularyOverlap [ecce_homo, antichrist, birth_of_tragedy] partial_comparative
     sample_data = Inl TypeError \<and>
   display [ecce_homo, antichrist, birth_of_tragedy] partial_comparative sample_data
     = Inl TypeError"
proof -
  have ids: "text_id ecce_homo = ''ecce_homo''" "text_id antichrist = ''antichrist''"
    "text_id birth_of_tragedy = ''birth_of_tragedy''"
    by (simp_all add: ecce_homo_def antichrist_def birth_of_tragedy_def)
  have m: "renderSimilarityMatrix [ecce_homo, antichrist, birth_of_tragedy] partial_comparative
      = Inl TypeError"
    unfolding renderSimilarityMatrix_def Let_def
    by (simp add: ids partial_comparative_def)
  have r: "renderVocabularyOverlap [ecce_homo, antichrist, birth_of_tragedy]
      partial_comparative sample_data = Inl TypeError"
    unfolding renderVocabularyOverlap_def m by simp
  from renderStyleComparison_well_formed [OF sample_well_formed(1)]
  obtain style where st: "renderStyleComparison [ecce_homo, antichrist, birth_of_tragedy]
      = Inr style"
    by (elim exE)
  have "display [ecce_homo, antichrist, birth_of_tragedy] partial_comparative sample_data
     = Inl TypeError"
    unfolding display_def sample_overviews(2) st r by simp
  with r show ?thesis
    by (intro conjI)
qed

section \<open>Properties of the word cloud font sizes\<close>

lemma js_size_finite:
  "mn < mx \<Longrightarrow>
   js_add (Fin 12) (js_mul (js_div (js_sub (Fin c) (Fin mn)) (js_sub (Fin mx) (Fin mn))) (Fin 48))
     = Fin (12 + (c - mn) / (mx - mn) * 48)"
  by (simp add: js_sub_def)

lemma js_size_nan:
  "js_add (Fin 12) (js_mul (js_div (js_sub (Fin mn) (Fin mn)) (js_sub (Fin mn) (Fin mn))) (Fin 48))
     = NaN"
  by (simp add: js_sub_def inf_signed_def)

lemma scale_bounds:
  "0 \<le> (q::real) \<Longrightarrow> q \<le> 1 \<Longrightarrow> 12 \<le> 12 + q * 48 \<and> 12 + q * 48 \<le> 60"
  by simp

text \<open>
  Claim C10. For a non-empty word list, let \<open>mn\<close> and \<open>mx\<close> be the least and the greatest
  count. When \<open>mn < mx\<close>, every font size that \<open>generate\<close> computes is the finite number
  \<open>12 + (count - mn) / (mx - mn) * 48\<close>, it lies between 12 and 60, and it does not decrease
  when the count grows. The precondition is needed: when all counts are equal the division
  is 0/0 and every size is \<open>NaN\<close>.
\<close>

theorem font_size_bounds:
  assumes "wordData \<noteq> []"
  defines "mn \<equiv> real_of_int (Min (bw_count ` set wordData))"
    and "mx \<equiv> real_of_int (Max (bw_count ` set wordData))"
  shows "(mn < mx \<longrightarrow>
      generate wordData =
        map (\<lambda>w. (bw_word w, Fin (12 + (real_of_int (bw_count w) - mn) / (mx - mn) * 48))) wordData \<and>
      (\<forall>w\<in>set wordData.
         12 \<le> 12 + (real_of_int (bw_count w) - mn) / (mx - mn) * 48 \<and>
         12 + (real_of_int (bw_count w) - mn) / (mx - mn) * 48 \<le> 60) \<and>
      (\<forall>a b::int. a \<le> b \<longrightarrow>
         12 + (real_of_int a - mn) / (mx - mn) * 48 \<le> 12 + (real_of_int b - mn) / (mx - mn) * 48)) \<and>
     (\<not> mn < mx \<longrightarrow> generate wordData = map (\<lambda>w. (bw_word w, NaN)) wordData)"
proof -
  let ?cs = "map (\<lambda>w. real_of_int (bw_count w)) wordData"
  have ne: "?cs \<noteq> []"
    using assms(1) by simp
  have fin: "finite (bw_count ` set wordData)" "bw_count ` set wordData \<noteq> {}"
    using assms(1) by auto
  have setcs: "set ?cs = real_of_int ` (bw_count ` set wordData)"
    by auto
  have mono: "mono real_of_int"
    by (simp add: mono_def)
  have mxe: "Math_max ?cs = Fin mx"
    unfolding Math_max_Max [OF ne] setcs mx_def
    using mono_Max_commute [OF mono fin] by simp
  have mne: "Math_min ?cs = Fin mn"
    unfolding Math_min_Min [OF ne] setcs mn_def
    using mono_Min_commute [OF mono fin] by simp
  have gen: "generate wordData =
     map (\<lambda>w. (bw_word w,
        js_add (Fin 12) (js_mul (js_div (js_sub (Fin (real_of_int (bw_count w))) (Fin mn))
           (js_sub (Fin mx) (Fin mn))) (Fin 48)))) wordData"
    by (simp add: generate_def mxe mne Let_def)
  have lo: "\<And>w. w \<in> set wordData \<Longrightarrow> mn \<le> real_of_int (bw_count w)"
    unfolding mn_def using fin by simp
  have hi: "\<And>w. w \<in> set wordData \<Longrightarrow> real_of_int (bw_count w) \<le> mx"
    unfolding mx_def using fin by simp
  have le: "mn \<le> mx"
    using lo hi assms(1) by (cases wordData) force+
  show ?thesis
  proof (intro conjI impI)
    assume lt: "mn < mx"
    show "generate wordData =
        map (\<lambda>w. (bw_word w, Fin (12 + (real_of_int (bw_count w) - mn) / (mx - mn) * 48))) wordData"
      unfolding gen using lt by (simp add: js_size_finite)
    show "\<forall>w\<in>set wordData.
         12 \<le> 12 + (real_of_int (bw_count w) - mn) / (mx - mn) * 48 \<and>
         12 + (real_of_int (bw_count w) - mn) / (mx - mn) * 48 \<le> 60"
    proof
      fix w
      assume w: "w \<in> set wordData"
      have "0 \<le> (real_of_int (bw_count w) - mn) / (mx - mn)"
        using lo [OF w] lt by simp
      moreover have "(real_of_int (bw_count w) - mn) / (mx - mn) \<le> 1"
        using hi [OF w] lt by simp
      ultimately show "12 \<le> 12 + (real_of_int (bw_count w) - mn) / (mx - mn) * 48 \<and>
         12 + (real_of_int (bw_count w) - mn) / (mx - mn) * 48 \<le> 60"
        by (rule scale_bounds)
    qed
    show "\<forall>a b::int. a \<le> b \<longrightarrow>
         12 + (real_of_int a - mn) / (mx - mn) * 48 \<le> 12 + (real_of_int b - mn) / (mx - mn) * 48"
      using lt by (simp add: divide_right_mono)
  next
    assume "\<not> mn < mx"
    with le have eq: "mx = mn"
      by simp
    have all: "\<And>w. w \<in> set wordData \<Longrightarrow> real_of_int (bw_count w) = mn"
      using lo hi eq by force
    show "generate wordData = map (\<lambda>w. (bw_word w, NaN)) wordData"
      unfolding gen eq using all by (simp add: js_size_nan)
  qed
qed

theorem font_size_bounds_witness:
  "top_100 ecce_homo \<noteq> [] \<and>
   real_of_int (Min (bw_count ` set (top_100 ecce_homo)))
     < real_of_int (Max (bw_count ` set (top_100 ecce_homo))) \<and>
   generate (top_100 ecce_homo) = [(''life'', Fin 60), (''man'', Fin 36), (''god'', Fin 12)] \<and>
   top_100 antichrist \<noteq> [] \<and>
   \<not> real_of_int (Min (bw_count ` set (top_100 antichrist)))
     < real_of_int (Max (bw_count ` set (top_100 antichrist))) \<and>
   generate (top_100 antichrist) = [(''god'', NaN), (''priest'', NaN)]"
proof -
  have e: "top_100 ecce_homo =
      [\<lparr>bw_word = ''life'', bw_count = 40\<rparr>, \<lparr>bw_word = ''man'', bw_count = 25\<rparr>,
       \<lparr>bw_word = ''god'', bw_count = 10\<rparr>]"
    by (simp add: ecce_homo_def)
  have a: "top_100 antichrist =
      [\<lparr>bw_word = ''god'', bw_count = 30\<rparr>, \<lparr>bw_word = ''priest'', bw_count = 30\<rparr>]"
    by (simp add: antichrist_def)
  have h1: "top_100 ecce_homo \<noteq> []"
    by (simp add: e)
  have h2: "real_of_int (Min (bw_count ` set (top_100 ecce_homo)))
     < real_of_int (Max (bw_count ` set (top_100 ecce_homo)))"
    by (simp add: e)
  have h3: "top_100 antichrist \<noteq> []"
    by (simp add: a)
  have h4: "\<not> real_of_int (Min (bw_count ` set (top_100 antichrist)))
     < real_of_int (Max (bw_count ` set (top_100 antichrist)))"
    by (simp add: a)
  have g1: "generate (top_100 ecce_homo) = [(''life'', Fin 60), (''man'', Fin 36), (''god'', Fin 12)]"
    using font_size_bounds [OF h1] h2 by (simp add: e)
  have g2: "generate (top_100 antichrist) = [(''god'', NaN), (''priest'', NaN)]"
    using font_size_bounds [OF h3] h4 by (simp add: a)
  from h1 h2 g1 h3 h4 g2 show ?thesis
    by (intro conjI)
qed

section \<open>Properties of the similarity matrix\<close>

lemma jaccard_commute: "jaccard A B = jaccard B A"
  by (simp add: jaccard_def Int_commute Un_commute)

lemma map_of_keyed:
  "map_of (map (\<lambda>(k, v). (k, f k v)) xs) k = map_option (f k) (map_of xs k)"
  by (induction xs) auto

lemma matrix_at_similarityMatrix:
  "matrix_at (similarityMatrix corpus) i j =
     (case map_of corpus i of
        None \<Rightarrow> None
      | Some A \<Rightarrow>
          (case map_of corpus j of
             None \<Rightarrow> None
           | Some B \<Rightarrow> Some (if i = j then 1 else jaccard A B)))"
  by (simp add: matrix_at_def similarityMatrix_def map_of_keyed split: option.splits)

lemma collect_Inr: "collect (map (\<lambda>x. Inr (f x)) xs) = Inr (map f xs)"
  by (induction xs) simp_all

lemma renderSimilarityMatrix_rows:
  assumes "\<forall>t\<in>set textsData. \<exists>row. map_of (similarity_matrix cd) (text_id t) = Some row"
  shows "renderSimilarityMatrix textsData cd =
     Inr (map (\<lambda>t. take 15 (title t) @ ''...'') textsData,
          map (\<lambda>text1. (take 15 (title text1) @ ''...'',
                 map (\<lambda>text2. matrix_cell_of (the (map_of (similarity_matrix cd) (text_id text1)))
                        (text_id text1) (text_id text2)) textsData)) textsData)"
proof -
  have eq: "map (\<lambda>text1.
             case map_of (similarity_matrix cd) (text_id text1) of
               None \<Rightarrow> Inl TypeError
             | Some row \<Rightarrow>
                 Inr (take 15 (title text1) @ ''...'',
                      map (\<lambda>text2. matrix_cell_of row (text_id text1) (text_id text2)) textsData))
             textsData
     = map (\<lambda>text1. Inr (take 15 (title text1) @ ''...'',
                 map (\<lambda>text2. matrix_cell_of (the (map_of (similarity_matrix cd) (text_id text1)))
                        (text_id text1) (text_id text2)) textsData)) textsData"
    using assms by (intro map_cong refl) auto
  show ?thesis
    unfolding renderSimilarityMatrix_def Let_def eq collect_Inr by simp
qed

lemma diagonal_cell:
  "map_of row i = Some 1 \<Longrightarrow> matrix_cell_of row i i = \<lparr>percentage = Fin 100, bgColor = Grey\<rparr>"
  by (simp add: matrix_cell_of_def)

lemma similarityMatrix_row:
  "map_of corpus i = Some A \<Longrightarrow>
   map_of (similarityMatrix corpus) i
     = Some (map (\<lambda>(j, B). (j, if i = j then 1 else jaccard A B)) corpus)"
  by (simp add: similarityMatrix_def map_of_keyed)

lemma similarityMatrix_diagonal_entry:
  "map_of corpus i = Some A \<Longrightarrow>
   map_of (map (\<lambda>(j, B). (j, if i = j then 1 else jaccard A B)) corpus) i = Some (1::real)"
  by (simp add: map_of_keyed)

text \<open>
  Claim C3. In the similarity matrix of a corpus, \<open>matrix[i][j]\<close> equals \<open>matrix[j][i]\<close> for
  all ids \<open>i\<close> and \<open>j\<close>, \<open>matrix[i][i]\<close> is exactly 1 for every text id of the corpus, and the
  entry of every ordered pair of text ids of the corpus is defined. So
  \<open>renderSimilarityMatrix\<close>, which reads the entry of every ordered pair of the selected
  texts, does not fail on texts of the corpus: it builds one row per text with one cell per
  text, and the cell on the diagonal is 100 percent on the grey background.
\<close>

theorem similarityMatrix_symmetric_unit_diagonal:
  "matrix_at (similarityMatrix corpus) i j = matrix_at (similarityMatrix corpus) j i \<and>
   (i \<in> fst ` set corpus \<longrightarrow> matrix_at (similarityMatrix corpus) i i = Some 1) \<and>
   (i \<in> fst ` set corpus \<and> j \<in> fst ` set corpus \<longrightarrow>
      matrix_at (similarityMatrix corpus) i j \<noteq> None) \<and>
   (text_id ` set textsData \<subseteq> fst ` set corpus \<longrightarrow>
      (\<exists>header rows.
         renderSimilarityMatrix textsData \<lparr>pairs = ps, similarity_matrix = similarityMatrix corpus\<rparr>
           = Inr (header, rows) \<and>
         length rows = length textsData \<and>
         (\<forall>k<length textsData.
            length (snd (rows ! k)) = length textsData \<and>
            snd (rows ! k) ! k = \<lparr>percentage = Fin 100, bgColor = Grey\<rparr>)))"
proof -
  have sym: "matrix_at (similarityMatrix corpus) i j = matrix_at (similarityMatrix corpus) j i"
    unfolding matrix_at_similarityMatrix
    by (auto simp: jaccard_commute split: option.splits)
  have dom: "\<And>k. k \<in> fst ` set corpus \<Longrightarrow> \<exists>A. map_of corpus k = Some A"
    by (metis domD dom_map_of_conv_image_fst)
  have diag: "i \<in> fst ` set corpus \<longrightarrow> matrix_at (similarityMatrix corpus) i i = Some 1"
  proof
    assume "i \<in> fst ` set corpus"
    then obtain A where "map_of corpus i = Some A"
      using dom by blast
    then show "matrix_at (similarityMatrix corpus) i i = Some 1"
      by (simp add: matrix_at_similarityMatrix)
  qed
  have defd: "i \<in> fst ` set corpus \<and> j \<in> fst ` set corpus \<longrightarrow>
      matrix_at (similarityMatrix corpus) i j \<noteq> None"
  proof
    assume "i \<in> fst ` set corpus \<and> j \<in> fst ` set corpus"
    then obtain A B where "map_of corpus i = Some A" "map_of corpus j = Some B"
      using dom by blast
    then show "matrix_at (similarityMatrix corpus) i j \<noteq> None"
      by (simp add: matrix_at_similarityMatrix)
  qed
  have rend: "text_id ` set textsData \<subseteq> fst ` set corpus \<longrightarrow>
      (\<exists>header rows.
         renderSimilarityMatrix textsData \<lparr>pairs = ps, similarity_matrix = similarityMatrix corpus\<rparr>
           = Inr (header, rows) \<and>
         length rows = length textsData \<and>
         (\<forall>k<length textsData.
            length (snd (rows ! k)) = length textsData \<and>
            snd (rows ! k) ! k = \<lparr>percentage = Fin 100, bgColor = Grey\<rparr>))"
  proof
    let ?cd = "\<lparr>pairs = ps, similarity_matrix = similarityMatrix corpus\<rparr>"
    let ?rows = "map (\<lambda>text1. (take 15 (title text1) @ ''...'',
                 map (\<lambda>text2. matrix_cell_of (the (map_of (similarity_matrix ?cd) (text_id text1)))
                        (text_id text1) (text_id text2)) textsData)) textsData"
    assume sub: "text_id ` set textsData \<subseteq> fst ` set corpus"
    have known: "\<And>t. t \<in> set textsData \<Longrightarrow> \<exists>A. map_of corpus (text_id t) = Some A"
      using sub dom by blast
    have rows: "\<forall>t\<in>set textsData. \<exists>row. map_of (similarity_matrix ?cd) (text_id t) = Some row"
    proof
      fix t
      assume "t \<in> set textsData"
      then obtain A where "map_of corpus (text_id t) = Some A"
        using known by blast
      then show "\<exists>row. map_of (similarity_matrix ?cd) (text_id t) = Some row"
        by (simp add: similarityMatrix_row)
    qed
    have r: "renderSimilarityMatrix textsData ?cd
        = Inr (map (\<lambda>t. take 15 (title t) @ ''...'') textsData, ?rows)"
      by (rule renderSimilarityMatrix_rows [OF rows])
    have cells: "\<forall>k<length textsData.
        length (snd (?rows ! k)) = length textsData \<and>
        snd (?rows ! k) ! k = \<lparr>percentage = Fin 100, bgColor = Grey\<rparr>"
    proof (intro allI impI)
      fix k
      assume k: "k < length textsData"
      then obtain A where A: "map_of corpus (text_id (textsData ! k)) = Some A"
        using known [of "textsData ! k"] by auto
      show "length (snd (?rows ! k)) = length textsData \<and>
        snd (?rows ! k) ! k = \<lparr>percentage = Fin 100, bgColor = Grey\<rparr>"
        using k by (simp add: similarityMatrix_row [OF A]
            diagonal_cell [OF similarityMatrix_diagonal_entry [OF A]])
    qed
    show "\<exists>header rows.
         renderSimilarityMatrix textsData ?cd = Inr (header, rows) \<and>
         length rows = length textsData \<and>
         (\<forall>k<length textsData.
            length (snd (rows ! k)) = length textsData \<and>
            snd (rows ! k) ! k = \<lparr>percentage = Fin 100, bgColor = Grey\<rparr>)"
    proof -
      have len: "length ?rows = length textsData"
        by simp
      from r len cells show ?thesis
        by (intro exI conjI)
    qed
  qed
  show ?thesis
    using sym diag defd rend by (intro conjI)
qed

lemma sample_jaccard:
  "jaccard {''power'', ''life'', ''will''} {''power'', ''life'', ''truth''} = 1 / 2"
proof -
  have i: "{''power'', ''life'', ''will''} \<inter> {''power'', ''life'', ''truth''} = {''power'', ''life''}"
    by auto
  have u: "{''power'', ''life'', ''will''} \<union> {''power'', ''life'', ''truth''}
      = {''power'', ''life'', ''will'', ''truth''}"
    by auto
  show ?thesis
    unfolding jaccard_def i u by simp
qed

theorem similarityMatrix_symmetric_unit_diagonal_witness:
  "''a'' \<in> fst ` set sample_corpus \<and> ''c'' \<in> fst ` set sample_corpus \<and>
   matrix_at (similarityMatrix sample_corpus) ''a'' ''a'' = Some 1 \<and>
   matrix_at (similarityMatrix sample_corpus) ''c'' ''c'' = Some 1 \<and>
   matrix_at (similarityMatrix sample_corpus) ''a'' ''c'' \<noteq> None \<and>
   matrix_at (similarityMatrix sample_corpus) ''b'' ''a'' = Some (1 / 2)"
proof -
  have a: "''a'' \<in> fst ` set sample_corpus"
    by (simp add: sample_corpus_def)
  have c: "''c'' \<in> fst ` set sample_corpus"
    by (simp add: sample_corpus_def)
  have ab: "matrix_at (similarityMatrix sample_corpus) ''a'' ''b'' = Some (1 / 2)"
    unfolding matrix_at_similarityMatrix
    by (simp add: sample_corpus_def sample_jaccard)
  from a c ab
    similarityMatrix_symmetric_unit_diagonal [of sample_corpus "''a''" "''c''"]
    similarityMatrix_symmetric_unit_diagonal [of sample_corpus "''c''" "''c''"]
    similarityMatrix_symmetric_unit_diagonal [of sample_corpus "''a''" "''b''"]
  show ?thesis
    by auto
qed

section \<open>Properties of the data loader\<close>

lemma one_fetch_initial: "one_fetch initial"
  by (simp add: one_fetch_def initial_def)

lemma resume_cases:
  "resume inp t s = (t', s') \<Longrightarrow>
     (\<not> inflight t \<and> s' = s \<and> \<not> inflight t') \<or>
     (inflight t \<and> t' = t \<and> s' = s) \<or>
     (inflight t \<and> inflight t' \<and> s' = s) \<or>
     (inflight t \<and> \<not> inflight t' \<and> \<not> isLoading s')"
  by (cases "(inp, t, s)" rule: resume.cases) (auto split: if_splits)

lemma one_fetch_step: "one_fetch st \<Longrightarrow> one_fetch (step e st)"
proof -
  assume inv: "one_fetch st"
  obtain s ts where st: "st = (s, ts)"
    by (cases st)
  show ?thesis
  proof (cases e)
    case CallLoadData
    then show ?thesis
      using inv st
      apply (simp add: one_fetch_def loadData_def split: option.splits)
      apply (auto simp: nth_append split: if_splits)
      done
  next
    case (Resume i inp)
    show ?thesis
    proof (cases "i < length ts")
      case False
      then show ?thesis
        using inv st Resume by simp
    next
      case True
      obtain t' s' where r: "resume inp (ts ! i) s = (t', s')"
        by (cases "resume inp (ts ! i) s")
      have stp: "step e st = (s', ts[i := t'])"
        using st Resume True r by simp
      have upd: "\<And>k. k < length ts \<Longrightarrow>
          inflight (ts[i := t'] ! k) = (if k = i then inflight t' else inflight (ts ! k))"
        using True by (simp add: nth_list_update)
      from inv st have uniq: "\<And>k. k < length ts \<Longrightarrow> inflight (ts ! k) \<Longrightarrow>
          analysisData s = None \<and> isLoading s \<and> (\<forall>j<length ts. inflight (ts ! j) \<longrightarrow> j = k)"
        by (simp add: one_fetch_def)
      from resume_cases [OF r]
      consider (unchanged) "s' = s" "inflight t' = inflight (ts ! i)"
        | (finished) "inflight (ts ! i)" "\<not> inflight t'"
        by auto
      then show ?thesis
      proof cases
        case unchanged
        then have "\<And>k. k < length ts \<Longrightarrow> inflight (ts[i := t'] ! k) = inflight (ts ! k)"
          using upd by simp
        then show ?thesis
          unfolding stp using uniq unchanged(1) by (simp add: one_fetch_def)
      next
        case finished
        have "\<And>k. k < length ts \<Longrightarrow> \<not> inflight (ts[i := t'] ! k)"
          using upd uniq [OF True finished(1)] finished(2) by auto
        then show ?thesis
          unfolding stp by (simp add: one_fetch_def)
      qed
    qed
  next
    case ClearCache
    then show ?thesis
      using inv st by (auto simp: one_fetch_def clearCache_def)
  qed
qed

lemma one_fetch_run: "one_fetch st \<Longrightarrow> one_fetch (run evs st)"
  unfolding run_def by (induction evs arbitrary: st) (simp_all add: one_fetch_step)

text \<open>
  What holds of the calls once the document is cached, relative to the \<open>n\<close> calls made
  before: no call is in flight, and every later call has returned the cached document.
\<close>

lemma cached_step:
  assumes "analysisData s = Some d"
    and "\<forall>i<length ts. \<not> inflight (ts ! i)"
    and "n \<le> length ts"
    and "\<forall>i<length ts. n \<le> i \<longrightarrow> ts ! i = Returned (Some d)"
    and "e \<noteq> ClearCache"
  shows "\<exists>ts'. step e (s, ts) = (s, ts') \<and> (\<forall>i<length ts'. \<not> inflight (ts' ! i)) \<and>
     n \<le> length ts' \<and> (\<forall>i<length ts'. n \<le> i \<longrightarrow> ts' ! i = Returned (Some d))"
proof (cases e)
  case CallLoadData
  have "step e (s, ts) = (s, ts @ [Returned (Some d)])"
    using CallLoadData assms(1) by (simp add: loadData_def)
  moreover have "\<forall>i<length (ts @ [Returned (Some d)]). \<not> inflight ((ts @ [Returned (Some d)]) ! i)"
    using assms(2) by (auto simp: nth_append)
  moreover have "\<forall>i<length (ts @ [Returned (Some d)]).
      n \<le> i \<longrightarrow> (ts @ [Returned (Some d)]) ! i = Returned (Some d)"
    using assms(4) by (auto simp: nth_append less_Suc_eq)
  ultimately show ?thesis
    using assms(3) by auto
next
  case (Resume i inp)
  show ?thesis
  proof (cases "i < length ts")
    case False
    then show ?thesis
      using Resume assms by simp
  next
    case True
    obtain t' s' where r: "resume inp (ts ! i) s = (t', s')"
      by (cases "resume inp (ts ! i) s")
    have ni: "\<not> inflight (ts ! i)"
      using assms(2) True by simp
    from resume_cases [OF r] ni have same: "s' = s" and nt: "\<not> inflight t'"
      by auto
    have keep: "ts ! i = Returned (Some d) \<Longrightarrow> t' = Returned (Some d)"
      using r by (cases inp) simp_all
    have stp: "step e (s, ts) = (s, ts[i := t'])"
      using Resume True r same by simp
    have a: "\<forall>k<length (ts[i := t']). \<not> inflight (ts[i := t'] ! k)"
      using assms(2) nt True by (auto simp: nth_list_update)
    have b: "\<forall>k<length (ts[i := t']). n \<le> k \<longrightarrow> ts[i := t'] ! k = Returned (Some d)"
      using assms(4) keep True by (auto simp: nth_list_update)
    show ?thesis
      using stp a b assms(3) by simp
  qed
next
  case ClearCache
  then show ?thesis
    using assms(5) by simp
qed

lemma cached_run:
  "analysisData s = Some d \<Longrightarrow> \<forall>i<length ts. \<not> inflight (ts ! i) \<Longrightarrow> n \<le> length ts \<Longrightarrow>
   \<forall>i<length ts. n \<le> i \<longrightarrow> ts ! i = Returned (Some d) \<Longrightarrow> ClearCache \<notin> set evs \<Longrightarrow>
   \<exists>ts'. run evs (s, ts) = (s, ts') \<and> n \<le> length ts' \<and>
     (\<forall>i<length ts'. n \<le> i \<longrightarrow> ts' ! i = Returned (Some d))"
proof (induction evs arbitrary: ts)
  case Nil
  then show ?case
    by (simp add: run_def)
next
  case (Cons e evs)
  from Cons.prems have "e \<noteq> ClearCache"
    by auto
  from cached_step [OF Cons.prems(1-4) this] obtain ts1 where
    s1: "step e (s, ts) = (s, ts1)" "\<forall>i<length ts1. \<not> inflight (ts1 ! i)" "n \<le> length ts1"
      "\<forall>i<length ts1. n \<le> i \<longrightarrow> ts1 ! i = Returned (Some d)"
    by blast
  from Cons.prems have "ClearCache \<notin> set evs"
    by simp
  from Cons.IH [OF Cons.prems(1) s1(2) s1(3) s1(4) this] show ?case
    using s1(1) by (simp add: run_def)
qed

lemma cached_no_inflight:
  "one_fetch (s, ts) \<Longrightarrow> analysisData s = Some d \<Longrightarrow> \<forall>i<length ts. \<not> inflight (ts ! i)"
  by (auto simp: one_fetch_def)

text \<open>
  Claim C8, as the code has it. Start from the fresh module and let any calls, resumptions
  and cache clearings happen, ending with the document \<open>d\<close> cached. From then on, as long as
  the cache is not cleared, nothing changes the module: the cache stays \<open>d\<close> and no fetch is
  issued, whatever calls and resumptions follow; every \<open>loadData\<close> call made since has
  returned \<open>d\<close>, and a further call returns \<open>d\<close> at once; and the four accessors return what
  they read in \<open>d\<close>.
\<close>

theorem cached_document_is_reused:
  assumes "run evs1 initial = (s, ts)"
    and "analysisData s = Some d"
    and "ClearCache \<notin> set evs2"
  shows "(\<exists>ts'. run evs2 (s, ts) = (s, ts') \<and> length ts \<le> length ts' \<and>
        (\<forall>i<length ts'. length ts \<le> i \<longrightarrow> ts' ! i = Returned (Some d))) \<and>
      loadData s = (Returned (Some d), s) \<and>
      after_load (\<lambda>data. getTextById data textId) (fst (loadData s)) = Value (getTextById d textId) \<and>
      after_load getAllTexts (fst (loadData s)) = Value (getAllTexts d) \<and>
      after_load getComparativeData (fst (loadData s)) = Value (getComparativeData d) \<and>
      after_load (\<lambda>data. getVocabularyOverlap data text1Id text2Id) (fst (loadData s))
        = Value (getVocabularyOverlap d text1Id text2Id)"
proof -
  have "one_fetch (run evs1 initial)"
    by (rule one_fetch_run [OF one_fetch_initial])
  then have "one_fetch (s, ts)"
    using assms(1) by simp
  then have quiet: "\<forall>i<length ts. \<not> inflight (ts ! i)"
    using assms(2) by (rule cached_no_inflight)
  have "\<exists>ts'. run evs2 (s, ts) = (s, ts') \<and> length ts \<le> length ts' \<and>
      (\<forall>i<length ts'. length ts \<le> i \<longrightarrow> ts' ! i = Returned (Some d))"
    by (rule cached_run [OF assms(2) quiet _ _ assms(3)]) simp_all
  moreover have "loadData s = (Returned (Some d), s)"
    using assms(2) by (simp add: loadData_def)
  ultimately show ?thesis
    by auto
qed

theorem cached_document_is_reused_witness:
  "run [CallLoadData, CallLoadData, Resume 0 (FetchResponded True 200),
        Resume 0 (JsonParsed sample_data)] initial
     = (\<lparr>analysisData = Some sample_data, isLoading = False, fetches = 1\<rparr>,
        [Returned (Some sample_data), Waiting]) \<and>
   ClearCache \<notin> set [Resume 1 TimerFired, CallLoadData, Resume 0 FetchRejected] \<and>
   run [Resume 1 TimerFired, CallLoadData, Resume 0 FetchRejected]
       (\<lparr>analysisData = Some sample_data, isLoading = False, fetches = 1\<rparr>,
        [Returned (Some sample_data), Waiting])
     = (\<lparr>analysisData = Some sample_data, isLoading = False, fetches = 1\<rparr>,
        [Returned (Some sample_data), Returned (Some sample_data), Returned (Some sample_data)]) \<and>
   after_load getAllTexts
       (fst (loadData \<lparr>analysisData = Some sample_data, isLoading = False, fetches = 1\<rparr>))
     = Value (getAllTexts sample_data)"
proof -
  let ?s = "\<lparr>analysisData = Some sample_data, isLoading = False, fetches = 1\<rparr>"
  let ?ts = "[Returned (Some sample_data), Waiting]"
  let ?evs2 = "[Resume 1 TimerFired, CallLoadData, Resume 0 FetchRejected]"
  have h1: "run [CallLoadData, CallLoadData, Resume 0 (FetchResponded True 200),
        Resume 0 (JsonParsed sample_data)] initial = (?s, ?ts)"
    by (simp add: run_def initial_def loadData_def)
  have h2: "analysisData ?s = Some sample_data"
    by simp
  have h3: "ClearCache \<notin> set ?evs2"
    by simp
  have r: "run ?evs2 (?s, ?ts)
      = (?s, [Returned (Some sample_data), Returned (Some sample_data), Returned (Some sample_data)])"
    by (simp add: run_def loadData_def)
  note w = cached_document_is_reused [OF h1 h2 h3]
  have "after_load getAllTexts (fst (loadData ?s)) = Value (getAllTexts sample_data)"
    by (rule w [THEN conjunct2, THEN conjunct2, THEN conjunct2, THEN conjunct1])
  with h1 h3 r show ?thesis
    by (intro conjI)
qed

text \<open>
  Claim C8, as stated, has every later \<open>loadData\<close> call return the cached document without
  another fetch. \<open>clearCache\<close> empties the cache, and the call after it fetches again: after
  one successful load the count of fetches is 1; after \<open>clearCache\<close> and one more call it
  is 2, and that call is awaiting its fetch.
\<close>

theorem reload_after_clearCache:
  "run [CallLoadData, Resume 0 (FetchResponded True 200), Resume 0 (JsonParsed sample_data)]
       initial
     = (\<lparr>analysisData = Some sample_data, isLoading = False, fetches = 1\<rparr>,
        [Returned (Some sample_data)]) \<and>
   run [ClearCache, CallLoadData]
       (\<lparr>analysisData = Some sample_data, isLoading = False, fetches = 1\<rparr>,
        [Returned (Some sample_data)])
     = (\<lparr>analysisData = None, isLoading = True, fetches = 2\<rparr>,
        [Returned (Some sample_data), AwaitFetch])"
  by (simp add: run_def initial_def loadData_def clearCache_def)

end
